theory Spec2Isabelle
  imports Main "HOL-Library.AList"
begin

section \<open>Values of the program\<close>

text \<open>
  The handler of \<^verbatim>\<open>backend/app.py\<close> works on decoded JSON: the request body, the
  object decoded from the model's answer, the registry's answer. A Python \<^verbatim>\<open>dict\<close> is
  an association list in insertion order, read with \<^const>\<open>map_of\<close> and written with
  \<^const>\<open>AList.update\<close> (an existing key keeps its place, a new key goes last, as in
  Python). Numbers are integers; JSON floats are left out of the model. A character
  stands for a code point below 256; texts with other code points are outside the
  model.
\<close>

datatype json =
    JNull
  | JBool bool
  | JInt int
  | JStr string
  | JArr "json list"
  | JObj "(string \<times> json) list"

text \<open>
  The exceptions the handler can meet. \<open>OtherError\<close> stands for what the libraries
  raise on their own (a network failure, a \<^verbatim>\<open>ValueError\<close> of the model client, a
  \<^verbatim>\<open>RecursionError\<close> of the decoder), with its message.
\<close>

datatype exn =
    AttributeError
  | TypeError
  | KeyError
  | IndexError
  | JSONDecodeError
  | OtherError string

definition bind_exn :: "exn + 'a \<Rightarrow> ('a \<Rightarrow> exn + 'b) \<Rightarrow> exn + 'b" where
  "bind_exn m f = (case m of Inl e \<Rightarrow> Inl e | Inr x \<Rightarrow> f x)"

subsection \<open>Python's operations on these values\<close>

text \<open>\<^verbatim>\<open>bool(v)\<close>, as \<^verbatim>\<open>if v:\<close> and \<^verbatim>\<open>not v\<close> use it.\<close>

fun truthy :: "json \<Rightarrow> bool" where
  "truthy JNull = False"
| "truthy (JBool b) = b"
| "truthy (JInt n) = (n \<noteq> 0)"
| "truthy (JStr s) = (s \<noteq> [])"
| "truthy (JArr xs) = (xs \<noteq> [])"
| "truthy (JObj d) = (d \<noteq> [])"

text \<open>\<^verbatim>\<open>sub in s\<close> on two strings: \<open>sub\<close> occurs in \<open>s\<close> as a contiguous run.\<close>

fun str_contains :: "string \<Rightarrow> string \<Rightarrow> bool" where
  "str_contains [] sub = (sub = [])"
| "str_contains (c # cs) sub = (take (length sub) (c # cs) = sub \<or> str_contains cs sub)"

text \<open>\<^verbatim>\<open>k in v\<close> for a string \<open>k\<close>.\<close>

fun py_in :: "string \<Rightarrow> json \<Rightarrow> exn + bool" where
  "py_in k (JObj d) = Inr (map_of d k \<noteq> None)"
| "py_in k (JArr xs) = Inr (JStr k \<in> set xs)"
| "py_in k (JStr s) = Inr (str_contains s k)"
| "py_in k v = Inl TypeError"

text \<open>\<^verbatim>\<open>v[k]\<close> for a string \<open>k\<close>.\<close>

fun py_getitem :: "json \<Rightarrow> string \<Rightarrow> exn + json" where
  "py_getitem (JObj d) k = (case map_of d k of None \<Rightarrow> Inl KeyError | Some x \<Rightarrow> Inr x)"
| "py_getitem v k = Inl TypeError"

text \<open>\<^verbatim>\<open>v[k] = x\<close> for a string \<open>k\<close>.\<close>

fun py_setitem :: "json \<Rightarrow> string \<Rightarrow> json \<Rightarrow> exn + json" where
  "py_setitem (JObj d) k x = Inr (JObj (AList.update k x d))"
| "py_setitem v k x = Inl TypeError"

text \<open>\<^verbatim>\<open>v[0]\<close>. The keys of a decoded object are strings, so \<open>0\<close> is never one.\<close>

fun py_index0 :: "json \<Rightarrow> exn + json" where
  "py_index0 (JArr []) = Inl IndexError"
| "py_index0 (JArr (x # xs)) = Inr x"
| "py_index0 (JStr []) = Inl IndexError"
| "py_index0 (JStr (c # cs)) = Inr (JStr [c])"
| "py_index0 (JObj d) = Inl KeyError"
| "py_index0 v = Inl TypeError"

text \<open>\<^verbatim>\<open>len(v)\<close>.\<close>

fun py_len :: "json \<Rightarrow> exn + nat" where
  "py_len (JArr xs) = Inr (length xs)"
| "py_len (JStr s) = Inr (length s)"
| "py_len (JObj d) = Inr (length d)"
| "py_len v = Inl TypeError"

text \<open>\<^verbatim>\<open>v.get(k, dflt)\<close>: only a dict has the method.\<close>

fun py_get :: "json \<Rightarrow> string \<Rightarrow> json \<Rightarrow> exn + json" where
  "py_get (JObj d) k dflt = Inr (case map_of d k of None \<Rightarrow> dflt | Some x \<Rightarrow> x)"
| "py_get v k dflt = Inl AttributeError"

text \<open>
  \<^verbatim>\<open>min(v, b)\<close> and \<^verbatim>\<open>max(v, b)\<close> for an integer \<open>b\<close>: \<open>v\<close> is kept unless \<open>b\<close> is
  strictly smaller (larger). A \<^verbatim>\<open>bool\<close> compares as 0 or 1; anything else but a number
  does not compare with an integer.
\<close>

fun py_min :: "json \<Rightarrow> int \<Rightarrow> exn + json" where
  "py_min (JInt n) b = Inr (if b < n then JInt b else JInt n)"
| "py_min (JBool t) b = Inr (if b < (if t then 1 else 0) then JInt b else JBool t)"
| "py_min v b = Inl TypeError"

fun py_max :: "json \<Rightarrow> int \<Rightarrow> exn + json" where
  "py_max (JInt n) b = Inr (if b > n then JInt b else JInt n)"
| "py_max (JBool t) b = Inr (if b > (if t then 1 else 0) then JInt b else JBool t)"
| "py_max v b = Inl TypeError"

text \<open>\<^verbatim>\<open>s + v\<close> for a string \<open>s\<close>.\<close>

fun py_concat :: "string \<Rightarrow> json \<Rightarrow> exn + json" where
  "py_concat s (JStr t) = Inr (JStr (s @ t))"
| "py_concat s v = Inl TypeError"

subsection \<open>String methods\<close>

text \<open>
  \<^verbatim>\<open>str.lower\<close> on code points below 256: the 26 capital letters and the 30 capital
  letters from \<open>0xC0\<close> to \<open>0xDE\<close> (\<open>0xD7\<close>, the multiplication sign, is not one) go to
  their small letters, which are below 256 too; every other character stays.
\<close>

definition ascii_uppercase :: string where
  "ascii_uppercase = ''ABCDEFGHIJKLMNOPQRSTUVWXYZ''"

definition ascii_lowercase :: string where
  "ascii_lowercase = ''abcdefghijklmnopqrstuvwxyz''"

definition latin_uppercase :: string where
  "latin_uppercase =
     [CHR 0xC0, CHR 0xC1, CHR 0xC2, CHR 0xC3, CHR 0xC4, CHR 0xC5, CHR 0xC6, CHR 0xC7,
      CHR 0xC8, CHR 0xC9, CHR 0xCA, CHR 0xCB, CHR 0xCC, CHR 0xCD, CHR 0xCE, CHR 0xCF,
      CHR 0xD0, CHR 0xD1, CHR 0xD2, CHR 0xD3, CHR 0xD4, CHR 0xD5, CHR 0xD6,
      CHR 0xD8, CHR 0xD9, CHR 0xDA, CHR 0xDB, CHR 0xDC, CHR 0xDD, CHR 0xDE]"

definition latin_lowercase :: string where
  "latin_lowercase =
     [CHR 0xE0, CHR 0xE1, CHR 0xE2, CHR 0xE3, CHR 0xE4, CHR 0xE5, CHR 0xE6, CHR 0xE7,
      CHR 0xE8, CHR 0xE9, CHR 0xEA, CHR 0xEB, CHR 0xEC, CHR 0xED, CHR 0xEE, CHR 0xEF,
      CHR 0xF0, CHR 0xF1, CHR 0xF2, CHR 0xF3, CHR 0xF4, CHR 0xF5, CHR 0xF6,
      CHR 0xF8, CHR 0xF9, CHR 0xFA, CHR 0xFB, CHR 0xFC, CHR 0xFD, CHR 0xFE]"

definition lower_char :: "char \<Rightarrow> char" where
  "lower_char c =
     (case map_of (zip (ascii_uppercase @ latin_uppercase) (ascii_lowercase @ latin_lowercase)) c
      of None \<Rightarrow> c | Some l \<Rightarrow> l)"

definition lower :: "string \<Rightarrow> string" where
  "lower s = map lower_char s"

text \<open>
  \<^verbatim>\<open>str.upper\<close> has no such definition: it makes two characters of \<open>0xDF\<close> and leads
  from \<open>0xB5\<close> and \<open>0xFF\<close> to code points above 255. It is a parameter of the program
  (see \<open>str_upper\<close> below).
\<close>

text \<open>
  \<^verbatim>\<open>str.isspace\<close> on code points below 256: tab to carriage return, the four
  separators, the space, the next-line control \<open>0x85\<close> and the no-break space \<open>0xA0\<close>.
  \<^verbatim>\<open>str.strip\<close> removes these from both ends.
\<close>

definition is_space :: "char \<Rightarrow> bool" where
  "is_space c =
     (c \<in> set [CHR 0x09, CHR 0x0A, CHR 0x0B, CHR 0x0C, CHR 0x0D,
                CHR 0x1C, CHR 0x1D, CHR 0x1E, CHR 0x1F, CHR '' '', CHR 0x85, CHR 0xA0])"

definition strip :: "string \<Rightarrow> string" where
  "strip s = rev (dropWhile is_space (rev (dropWhile is_space s)))"

text \<open>
  \<^verbatim>\<open>s.find(c)\<close> and \<^verbatim>\<open>s.rfind(c)\<close> for a one-character needle: the least and the
  greatest index of \<open>c\<close>, or \<open>-1\<close>.
\<close>

fun str_find :: "string \<Rightarrow> char \<Rightarrow> int" where
  "str_find [] c = -1"
| "str_find (x # xs) c =
     (if x = c then 0 else (let r = str_find xs c in if r = -1 then -1 else r + 1))"

fun str_rfind :: "string \<Rightarrow> char \<Rightarrow> int" where
  "str_rfind [] c = -1"
| "str_rfind (x # xs) c =
     (let r = str_rfind xs c in if r \<noteq> -1 then r + 1 else if x = c then 0 else -1)"

text \<open>\<^verbatim>\<open>s[i : j]\<close> for indices that are not negative.\<close>

definition slice :: "string \<Rightarrow> int \<Rightarrow> int \<Rightarrow> string" where
  "slice s i j = drop (nat i) (take (nat j) s)"

section \<open>The outside world\<close>

text \<open>
  The generative model, the JSON decoder of the standard library, the upper-casing of
  the language and the fact-check registry are not code of this program: they are
  parameters. A prompt is the fixed
  text of its template with the values interpolated into it, so it is kept as these
  values. An answer of the model client offers its \<^verbatim>\<open>text\<close> accessor (which can raise)
  and its candidates, each with the texts of its content's parts; a content with no
  part is falsy or has an empty \<^verbatim>\<open>parts\<close>, which the code treats alike.
  \<open>requests_get_json\<close> is \<^verbatim>\<open>requests.get\<close>, \<^verbatim>\<open>raise_for_status\<close> and
  \<^verbatim>\<open>response.json()\<close> on the claim searched.
\<close>

datatype prompt =
    AnalysisPrompt json json
  | ClaimPrompt json

record gen_response =
  resp_text :: "exn + string"
  candidates :: "string list list"

record env =
  generate_content :: "prompt \<Rightarrow> exn + gen_response"
  json_loads :: "string \<Rightarrow> exn + json"
  str_upper :: "string \<Rightarrow> string"
  GOOGLE_FACT_CHECK_API_KEY :: string
  requests_get_json :: "string \<Rightarrow> exn + json"

text \<open>What leaves the process: a call of the model, a query of the registry.\<close>

datatype outbound =
    ModelCall prompt
  | RegistryCall string

text \<open>
  What the endpoint answers. \<open>Json500 e\<close> is status 500 with the body
  \<^verbatim>\<open>{"error": "An internal server error occurred during AI analysis: " + str(e)}\<close>;
  \<open>Unhandled e\<close> is an exception that leaves the view function, which the framework
  answers with a 500 of its own.
\<close>

datatype response =
    Json200 json
  | Json400 json
  | Json500 exn
  | Unhandled exn

fun status :: "response \<Rightarrow> nat" where
  "status (Json200 b) = 200"
| "status (Json400 b) = 400"
| "status (Json500 e) = 500"
| "status (Unhandled e) = 500"

section \<open>Claim extraction (lines 28--50)\<close>

definition sentinel :: string where
  "sentinel = ''No specific claim identified''"

text \<open>
  Every exception is caught and gives \<^verbatim>\<open>None\<close>. The condition of lines 40--42 holds
  when there is a first candidate whose content has a first part.
\<close>

definition extract_claim_with_gemini :: "env \<Rightarrow> json \<Rightarrow> string option" where
  "extract_claim_with_gemini env text =
     (case generate_content env (ClaimPrompt text) of
        Inl e \<Rightarrow> None
      | Inr response \<Rightarrow>
          (case candidates response of
             [] \<Rightarrow> None
           | parts # _ \<Rightarrow>
               (case parts of
                  [] \<Rightarrow> None
                | part # _ \<Rightarrow>
                    (let claim = strip part
                     in if claim \<noteq> sentinel then Some claim else None))))"

section \<open>The registry lookup (lines 53--93)\<close>

record fact_check_data =
  verdict :: json
  url :: json
  publisher :: json

text \<open>Lines 73--87, with the exceptions they can raise.\<close>

definition first_review :: "json \<Rightarrow> exn + fact_check_data option" where
  "first_review data =
     bind_exn
       (if truthy data then
          bind_exn (py_in ''claims'' data) (\<lambda>has.
            if has then
              bind_exn (py_getitem data ''claims'') (\<lambda>cs.
              bind_exn (py_len cs) (\<lambda>n. Inr (n > 0)))
            else Inr False)
        else Inr False)
       (\<lambda>found.
          if found then
            bind_exn (py_getitem data ''claims'') (\<lambda>cs.
            bind_exn (py_index0 cs) (\<lambda>first_claim.
            bind_exn (py_get first_claim ''claimReview'' (JArr [])) (\<lambda>claim_review.
              if truthy claim_review then
                bind_exn (py_index0 claim_review) (\<lambda>review.
                bind_exn (py_get review ''textualRating'' JNull) (\<lambda>v.
                bind_exn (py_get review ''url'' JNull) (\<lambda>u.
                bind_exn (py_get review ''publisher'' (JObj [])) (\<lambda>pub.
                bind_exn (py_get pub ''name'' (JStr ''Unknown'')) (\<lambda>p.
                  Inr (Some \<lparr>verdict = v, url = u, publisher = p\<rparr>))))))
              else Inr None)))
          else Inr None)"

text \<open>
  The whole function, with the query it sends: none without a key; both
  \<^verbatim>\<open>except\<close> clauses return \<^verbatim>\<open>None\<close>.
\<close>

definition query_fact_check_api :: "env \<Rightarrow> string \<Rightarrow> fact_check_data option \<times> outbound list" where
  "query_fact_check_api env claim =
     (if GOOGLE_FACT_CHECK_API_KEY env = [] then (None, [])
      else
        ((case requests_get_json env claim of
            Inl e \<Rightarrow> None
          | Inr data \<Rightarrow> (case first_review data of Inl e \<Rightarrow> None | Inr r \<Rightarrow> r)),
         [RegistryCall claim]))"

section \<open>The assessor (lines 146--193)\<close>

text \<open>The four dict literals the handler falls back to.\<close>

definition fifty_details :: json where
  "fifty_details =
     JObj [(''sourceReliability'', JInt 50), (''contentAnalysis'', JInt 50),
           (''factChecking'', JInt 50), (''linguisticAnalysis'', JInt 50)]"

definition fallback :: "string \<Rightarrow> string \<Rightarrow> json" where
  "fallback explanation disclaimer =
     JObj [(''credibilityScore'', JInt 50), (''classification'', JStr ''uncertain''),
           (''explanation'', JStr explanation), (''details'', fifty_details),
           (''disclaimer'', JStr disclaimer)]"

definition recommend :: string where
  "recommend =
     '' For full fact-checking, independent verification from multiple trusted sources is recommended.''"

definition could_not_parse_msg :: string where
  "could_not_parse_msg =
     ''AI content analysis failed: Could not parse Gemini's response (not valid JSON or incomplete).''"

definition missing_keys_msg :: string where
  "missing_keys_msg = ''AI content analysis returned an unexpected structure (missing keys).''"

definition no_json_msg :: string where
  "no_json_msg = ''AI content analysis failed: No JSON string found in Gemini's response.''"

definition malformed_msg :: string where
  "malformed_msg = ''AI content analysis returned malformed JSON.''"

text \<open>Lines 157--165.\<close>

definition default_could_not_parse :: json where
  "default_could_not_parse =
     fallback could_not_parse_msg (''AI content analysis failed.'' @ recommend)"

text \<open>Lines 172--177.\<close>

definition default_missing_keys :: json where
  "default_missing_keys =
     fallback missing_keys_msg (''AI content analysis returned an unexpected structure.'' @ recommend)"

text \<open>Lines 179--184.\<close>

definition default_no_json :: json where
  "default_no_json = fallback no_json_msg (''AI content analysis failed.'' @ recommend)"

text \<open>Lines 188--193.\<close>

definition default_malformed :: json where
  "default_malformed =
     fallback malformed_msg (''AI content analysis returned malformed JSON.'' @ recommend)"

text \<open>
  Line 147: \<^verbatim>\<open>hasattr\<close> reads the attribute and turns an \<^verbatim>\<open>AttributeError\<close>, and
  nothing else, into \<^verbatim>\<open>False\<close>.
\<close>

definition response_text :: "gen_response \<Rightarrow> exn + string" where
  "response_text r =
     (case resp_text r of
        Inl AttributeError \<Rightarrow> Inr []
      | Inl e \<Rightarrow> Inl e
      | Inr s \<Rightarrow> Inr s)"

text \<open>
  Lines 150--165 leave two variables: \<^verbatim>\<open>json_string\<close> and \<^verbatim>\<open>ai_result\<close>, which
  start as \<^verbatim>\<open>""\<close> and \<^verbatim>\<open>{}\<close>.
\<close>

definition locate_json :: "string \<Rightarrow> string \<times> json" where
  "locate_json raw =
     (let json_start = str_find raw CHR ''{'';
          json_end = str_rfind raw CHR ''}''
      in if json_start \<noteq> -1 \<and> json_end \<noteq> -1 \<and> json_end > json_start
         then (slice raw json_start (json_end + 1), JObj [])
         else ([], default_could_not_parse))"

definition required_keys :: "string list" where
  "required_keys = [''credibilityScore'', ''classification'', ''explanation'', ''details'']"

text \<open>\<^verbatim>\<open>all(k in v for k in ks)\<close>: stops at the first key that is not in \<open>v\<close>.\<close>

fun all_in :: "string list \<Rightarrow> json \<Rightarrow> exn + bool" where
  "all_in [] v = Inr True"
| "all_in (k # ks) v = bind_exn (py_in k v) (\<lambda>b. if b then all_in ks v else Inr False)"

text \<open>
  Lines 167--193. The inner \<^verbatim>\<open>except\<close> catches \<^verbatim>\<open>json.JSONDecodeError\<close> only; any
  other exception goes on to the handler's own \<^verbatim>\<open>except\<close>.
\<close>

definition parse_result :: "(string \<Rightarrow> exn + json) \<Rightarrow> string \<times> json \<Rightarrow> exn + json" where
  "parse_result loads st =
     (case st of (json_string, ai_result) \<Rightarrow>
        if json_string \<noteq> [] then
          (case loads json_string of
             Inl JSONDecodeError \<Rightarrow> Inr default_malformed
           | Inl e \<Rightarrow> Inl e
           | Inr parsed \<Rightarrow>
               bind_exn (all_in required_keys parsed) (\<lambda>ok.
                 Inr (if \<not> ok then default_missing_keys else parsed)))
        else if \<not> truthy ai_result then Inr default_no_json
        else Inr ai_result)"

definition assess :: "(string \<Rightarrow> exn + json) \<Rightarrow> string \<Rightarrow> exn + json" where
  "assess loads raw = parse_result loads (locate_json raw)"

section \<open>The merge policy (lines 205--219)\<close>

definition false_words :: "string list" where
  "false_words = [''false'', ''debunked'', ''misinformation'']"

definition true_words :: "string list" where
  "true_words = [''true'', ''verified'', ''accurate'']"

definition any_word :: "string list \<Rightarrow> string \<Rightarrow> bool" where
  "any_word ws s = list_ex (str_contains s) ws"

text \<open>
  The tail common to the three branches: the new explanation, then the display
  string. \<open>up\<close> is \<^verbatim>\<open>str.upper\<close>.
\<close>

definition cite :: "(string \<Rightarrow> string) \<Rightarrow> json \<Rightarrow> string \<Rightarrow> string \<Rightarrow> exn + json" where
  "cite up ai_result sentence v =
     bind_exn (py_getitem ai_result ''explanation'') (\<lambda>old.
     bind_exn (py_concat sentence old) (\<lambda>new.
     bind_exn (py_setitem ai_result ''explanation'' new) (\<lambda>a.
       py_setitem a ''classificationDisplay'' (JStr (''FACT-CHECKED: '' @ up v)))))"

definition merge_verdict :: "(string \<Rightarrow> string) \<Rightarrow> json \<Rightarrow> json \<Rightarrow> exn + json" where
  "merge_verdict up ai_result rating =
     (case rating of
        JStr v \<Rightarrow>
          (let verdict_lower = lower v
           in if any_word false_words verdict_lower then
                bind_exn (py_setitem ai_result ''classification'' (JStr ''fake'')) (\<lambda>a1.
                bind_exn (py_getitem a1 ''credibilityScore'') (\<lambda>score.
                bind_exn (py_min score 20) (\<lambda>m.
                bind_exn (py_setitem a1 ''credibilityScore'' m) (\<lambda>a2.
                  cite up a2 (''External fact-check confirms this claim is '' @ v @ ''. '') v))))
              else if any_word true_words verdict_lower then
                bind_exn (py_setitem ai_result ''classification'' (JStr ''real'')) (\<lambda>a1.
                bind_exn (py_getitem a1 ''credibilityScore'') (\<lambda>score.
                bind_exn (py_max score 80) (\<lambda>m.
                bind_exn (py_setitem a1 ''credibilityScore'' m) (\<lambda>a2.
                  cite up a2 (''External fact-check confirms this claim is '' @ v @ ''. '') v))))
              else
                bind_exn (py_setitem ai_result ''classification'' (JStr ''uncertain'')) (\<lambda>a1.
                  cite up a1 (''External fact-check verdict: '' @ v @ ''. '') v))
      | _ \<Rightarrow> Inl AttributeError)"

section \<open>The endpoint (lines 96--233)\<close>

text \<open>Lines 200--204 and 226: the three fields laid over the result.\<close>

definition final_result :: "json \<Rightarrow> fact_check_data option \<Rightarrow> exn + json" where
  "final_result ai_result fc =
     (case ai_result of
        JObj d \<Rightarrow>
          (case fc of
             None \<Rightarrow> Inr (JObj d)
           | Some f \<Rightarrow>
               Inr (JObj (AList.update ''factCheckPublisher'' (publisher f)
                           (AList.update ''factCheckUrl'' (url f)
                             (AList.update ''factCheckVerdict'' (verdict f) d)))))
      | _ \<Rightarrow> Inl TypeError)"

text \<open>Lines 196--226, once the assessor has a result.\<close>

definition verify_claim :: "env \<Rightarrow> json \<Rightarrow> json \<Rightarrow> (exn + json) \<times> outbound list" where
  "verify_claim env news_text ai_result =
     (case extract_claim_with_gemini env news_text of
        None \<Rightarrow> (final_result ai_result None, [ModelCall (ClaimPrompt news_text)])
      | Some extracted_claim \<Rightarrow>
          if extracted_claim \<noteq> [] then
            (case query_fact_check_api env extracted_claim of
               (None, sent) \<Rightarrow>
                 (final_result ai_result None, ModelCall (ClaimPrompt news_text) # sent)
             | (Some f, sent) \<Rightarrow>
                 (bind_exn (merge_verdict (str_upper env) ai_result (verdict f))
                    (\<lambda>merged. final_result merged (Some f)),
                  ModelCall (ClaimPrompt news_text) # sent))
          else (final_result ai_result None, [ModelCall (ClaimPrompt news_text)]))"

text \<open>Lines 109--229: the body of the \<^verbatim>\<open>try\<close>.\<close>

definition pipeline :: "env \<Rightarrow> json \<Rightarrow> json \<Rightarrow> (exn + json) \<times> outbound list" where
  "pipeline env news_text news_url =
     (let asked = AnalysisPrompt news_text
                    (if truthy news_url then news_url else JStr ''Not provided'')
      in case bind_exn (bind_exn (generate_content env asked) response_text)
                (assess (json_loads env)) of
           Inl e \<Rightarrow> (Inl e, [ModelCall asked])
         | Inr ai_result \<Rightarrow>
             (case verify_claim env news_text ai_result of
                (r, sent) \<Rightarrow> (r, ModelCall asked # sent)))"

definition analyze_news_endpoint :: "env \<Rightarrow> json \<Rightarrow> response \<times> outbound list" where
  "analyze_news_endpoint env data =
     (case py_get data ''content'' JNull of
        Inl e \<Rightarrow> (Unhandled e, [])
      | Inr news_text \<Rightarrow>
          (case py_get data ''url'' JNull of
             Inl e \<Rightarrow> (Unhandled e, [])
           | Inr news_url \<Rightarrow>
               if \<not> truthy news_text
               then (Json400 (JObj [(''error'', JStr ''News content is required.'')]), [])
               else
                 (case pipeline env news_text news_url of
                    (Inl e, sent) \<Rightarrow> (Json500 e, sent)
                  | (Inr final, sent) \<Rightarrow> (Json200 final, sent))))"

section \<open>Stubbed upstreams\<close>

text \<open>
  Concrete surroundings to run the endpoint in: a decoder given by the finite table of
  the texts it decodes (every other text is a decoding error), a model that answers the
  analysis prompt and the claim prompt with two fixed texts, a registry with a fixed
  outcome, and a configured key. The texts of these runs are ASCII, where
  \<^verbatim>\<open>str.upper\<close> changes the 26 small letters and nothing else.
\<close>

definition ascii_upper :: "string \<Rightarrow> string" where
  "ascii_upper s =
     map (\<lambda>c. case map_of (zip ascii_lowercase ascii_uppercase) c of None \<Rightarrow> c | Some u \<Rightarrow> u) s"

definition loads_of :: "(string \<times> json) list \<Rightarrow> string \<Rightarrow> exn + json" where
  "loads_of table s = (case map_of table s of None \<Rightarrow> Inl JSONDecodeError | Some v \<Rightarrow> Inr v)"

definition answer :: "string \<Rightarrow> exn + gen_response" where
  "answer s = Inr \<lparr>resp_text = Inr s, candidates = [[s]]\<rparr>"

definition stub_env :: "string \<Rightarrow> string \<Rightarrow> (string \<times> json) list \<Rightarrow> exn + json \<Rightarrow> env" where
  "stub_env analysis claim table registry =
     \<lparr>generate_content =
        (\<lambda>p. case p of AnalysisPrompt t u \<Rightarrow> answer analysis | ClaimPrompt t \<Rightarrow> answer claim),
      json_loads = loads_of table,
      str_upper = ascii_upper,
      GOOGLE_FACT_CHECK_API_KEY = ''key'',
      requests_get_json = (\<lambda>c. registry)\<rparr>"

text \<open>A result of the assessor, as the model is asked to give it.\<close>

definition sober :: "(string \<times> json) list" where
  "sober = [(''credibilityScore'', JInt 70), (''classification'', JStr ''uncertain''),
            (''explanation'', JStr ''Sober tone.''), (''details'', JObj [])]"

text \<open>
  Texts a model can answer with, and what \<^verbatim>\<open>json.loads\<close> makes of the JSON in them:
  a complete object bare and inside a markdown fence, an object without
  \<^verbatim>\<open>classification\<close> inside prose, and the empty object.
\<close>

definition scored_text :: string where
  \<open>scored_text =
     ''{"credibilityScore":70,"classification":"real","explanation":"ok","details":{}}''\<close>

definition scored :: "(string \<times> json) list" where
  "scored = [(''credibilityScore'', JInt 70), (''classification'', JStr ''real''),
             (''explanation'', JStr ''ok''), (''details'', JObj [])]"

definition unclassified_text :: string where
  \<open>unclassified_text = ''{"credibilityScore":70,"explanation":"ok","details":{}}''\<close>

definition unclassified :: "(string \<times> json) list" where
  "unclassified = [(''credibilityScore'', JInt 70), (''explanation'', JStr ''ok''),
                   (''details'', JObj [])]"

definition helpful_answer :: string where
  "helpful_answer = ''Here it is: '' @ unclassified_text @ '' Hope it helps.''"

definition fenced_answer :: string where
  "fenced_answer = ''Sure! ```json '' @ scored_text @ '' ```''"

definition tagged_text :: string where
  \<open>tagged_text =
     ''{"credibilityScore":70,"classification":"real","explanation":"ok","details":{},"factCheckVerdict":"False"}''\<close>

definition tagged :: "(string \<times> json) list" where
  "tagged = [(''credibilityScore'', JInt 70), (''classification'', JStr ''real''),
             (''explanation'', JStr ''ok''), (''details'', JObj []),
             (''factCheckVerdict'', JStr ''False'')]"

definition trailing_comma_answer :: string where
  \<open>trailing_comma_answer = ''{"credibilityScore":70,}''\<close>

definition decoder_table :: "(string \<times> json) list" where
  "decoder_table = [(''{}'', JObj []), (scored_text, JObj scored),
                    (unclassified_text, JObj unclassified), (tagged_text, JObj tagged)]"

definition decoder :: "string \<Rightarrow> exn + json" where
  "decoder = loads_of decoder_table"

text \<open>
  A request, and an answer of the registry whose first review has a URL and a
  publisher but no \<^verbatim>\<open>textualRating\<close>.
\<close>

definition moon :: string where
  "moon = ''The moon is made of cheese.''"

definition moon_request :: json where
  "moon_request = JObj [(''content'', JStr moon)]"

definition unrated_review :: json where
  "unrated_review =
     JObj [(''claims'',
            JArr [JObj [(''text'', JStr moon),
                        (''claimReview'',
                         JArr [JObj [(''publisher'', JObj [(''name'', JStr ''Checker'')]),
                                     (''url'', JStr ''https://checker.example/moon'')]])]])]"

text \<open>
  Four runs of the endpoint on that request: the model answers the analysis with JSON
  that has a trailing comma and the registry knows nothing; the model answers well
  and the registry returns the review without a rating; the model's analysis carries
  a key \<^verbatim>\<open>factCheckVerdict\<close> of its own and the model finds no claim; the analysis
  comes in a markdown fence and the model finds no claim, with a no-break space before
  the phrase and a next-line control and a line feed after it.
\<close>

definition malformed_env :: env where
  "malformed_env = stub_env trailing_comma_answer moon decoder_table (Inr (JObj []))"

definition unrated_env :: env where
  "unrated_env = stub_env scored_text moon decoder_table (Inr unrated_review)"

definition tagged_env :: env where
  "tagged_env =
     stub_env tagged_text ''No specific claim identified '' decoder_table (Inr unrated_review)"

definition padded_sentinel :: string where
  "padded_sentinel = CHR 0xA0 # '' No specific claim identified'' @ [CHR 0x85, CHR 0x0A]"

definition fenced_env :: env where
  "fenced_env = stub_env fenced_answer padded_sentinel decoder_table (Inr unrated_review)"

text \<open>
  An answer whose JSON has an integer of 4301 digits: \<^verbatim>\<open>json.loads\<close> raises a
  \<^verbatim>\<open>ValueError\<close> that is not a \<^verbatim>\<open>JSONDecodeError\<close>, since more than 4300 digits are
  not converted.
\<close>

definition overlong_answer :: string where
  \<open>overlong_answer = ''{"credibilityScore":'' @ replicate 4301 CHR ''7'' @ ''}''\<close>

definition digits_limit :: exn where
  "digits_limit =
     OtherError ''ValueError: Exceeds the limit (4300 digits) for integer string conversion''"

definition overlong_env :: env where
  "overlong_env =
     (stub_env overlong_answer moon decoder_table (Inr (JObj [])))
       \<lparr>json_loads :=
          (\<lambda>s. if s = overlong_answer then Inl digits_limit else loads_of decoder_table s)\<rparr>"

section \<open>Searching a string\<close>

lemma str_find_range: "str_find t c = -1 \<or> (0 \<le> str_find t c \<and> str_find t c < int (length t))"
  by (induction t) (auto simp: Let_def)

lemma str_find_absent: "str_find t c = -1 \<longleftrightarrow> c \<notin> set t"
proof (induction t)
  case Nil
  then show ?case by simp
next
  case (Cons x xs)
  then show ?case using str_find_range[of xs c] by (auto simp: Let_def)
qed

lemma str_find_first:
  "i < length t \<Longrightarrow> t ! i = c \<Longrightarrow> \<forall>k<i. t ! k \<noteq> c \<Longrightarrow> str_find t c = int i"
proof (induction t arbitrary: i)
  case Nil
  then show ?case by simp
next
  case (Cons x xs)
  show ?case
  proof (cases i)
    case 0
    with Cons.prems show ?thesis by simp
  next
    case (Suc m)
    with Cons.prems have x: "x \<noteq> c" by auto
    from Suc Cons.prems have "m < length xs" "xs ! m = c" "\<forall>k<m. xs ! k \<noteq> c" by auto
    then have "str_find xs c = int m" by (rule Cons.IH)
    with x Suc show ?thesis by (simp add: Let_def)
  qed
qed

lemma str_find_hit:
  "str_find t c \<noteq> -1 \<Longrightarrow>
   \<exists>i. str_find t c = int i \<and> i < length t \<and> t ! i = c \<and> (\<forall>k<i. t ! k \<noteq> c)"
proof (induction t)
  case Nil
  then show ?case by simp
next
  case (Cons x xs)
  show ?case
  proof (cases "x = c")
    case True
    then show ?thesis by (intro exI[of _ 0]) simp
  next
    case False
    with Cons.prems have "str_find xs c \<noteq> -1" by (auto simp: Let_def split: if_splits)
    then obtain i where i: "str_find xs c = int i" "i < length xs" "xs ! i = c" "\<forall>k<i. xs ! k \<noteq> c"
      using Cons.IH by blast
    have "\<forall>k<Suc i. (x # xs) ! k \<noteq> c"
      using False i(4) by (auto simp: nth_Cons split: nat.splits)
    with False i show ?thesis by (intro exI[of _ "Suc i"]) (simp add: Let_def)
  qed
qed

lemma str_rfind_range: "str_rfind t c = -1 \<or> (0 \<le> str_rfind t c \<and> str_rfind t c < int (length t))"
  by (induction t) (auto simp: Let_def)

lemma str_rfind_absent: "str_rfind t c = -1 \<longleftrightarrow> c \<notin> set t"
proof (induction t)
  case Nil
  then show ?case by simp
next
  case (Cons x xs)
  then show ?case using str_rfind_range[of xs c] by (auto simp: Let_def)
qed

lemma str_rfind_last:
  "j < length t \<Longrightarrow> t ! j = c \<Longrightarrow> \<forall>k. j < k \<and> k < length t \<longrightarrow> t ! k \<noteq> c \<Longrightarrow> str_rfind t c = int j"
proof (induction t arbitrary: j)
  case Nil
  then show ?case by simp
next
  case (Cons x xs)
  show ?case
  proof (cases j)
    case 0
    with Cons.prems have "\<forall>k<length xs. xs ! k \<noteq> c" by auto
    then have "c \<notin> set xs" by (auto simp: in_set_conv_nth)
    then have "str_rfind xs c = -1" by (simp add: str_rfind_absent)
    with 0 Cons.prems show ?thesis by simp
  next
    case (Suc m)
    with Cons.prems have "m < length xs" "xs ! m = c" by auto
    moreover have "\<forall>k. m < k \<and> k < length xs \<longrightarrow> xs ! k \<noteq> c"
    proof (intro allI impI)
      fix k assume "m < k \<and> k < length xs"
      then have "j < Suc k \<and> Suc k < length (x # xs)" using Suc by simp
      then have "(x # xs) ! Suc k \<noteq> c" using Cons.prems(3) by blast
      then show "xs ! k \<noteq> c" by simp
    qed
    ultimately have "str_rfind xs c = int m" by (rule Cons.IH)
    with Suc show ?thesis by (simp add: Let_def)
  qed
qed

lemma str_rfind_hit:
  "str_rfind t c \<noteq> -1 \<Longrightarrow>
   \<exists>j. str_rfind t c = int j \<and> j < length t \<and> t ! j = c \<and> (\<forall>k. j < k \<and> k < length t \<longrightarrow> t ! k \<noteq> c)"
proof (induction t)
  case Nil
  then show ?case by simp
next
  case (Cons x xs)
  show ?case
  proof (cases "str_rfind xs c = -1")
    case True
    with Cons.prems have x: "x = c" by (auto simp: Let_def split: if_splits)
    from True have "c \<notin> set xs" by (simp add: str_rfind_absent)
    then have "\<forall>k. 0 < k \<and> k < length (x # xs) \<longrightarrow> (x # xs) ! k \<noteq> c"
      by (auto simp: nth_Cons split: nat.splits)
    with True x show ?thesis by (intro exI[of _ 0]) simp
  next
    case False
    then obtain j where j: "str_rfind xs c = int j" "j < length xs" "xs ! j = c"
        "\<forall>k. j < k \<and> k < length xs \<longrightarrow> xs ! k \<noteq> c"
      using Cons.IH by blast
    have "\<forall>k. Suc j < k \<and> k < length (x # xs) \<longrightarrow> (x # xs) ! k \<noteq> c"
      using j(4) by (auto simp: nth_Cons split: nat.splits)
    with False j show ?thesis by (intro exI[of _ "Suc j"]) (simp add: Let_def)
  qed
qed

lemma str_contains_iff: "str_contains s sub \<longleftrightarrow> (\<exists>ps ss. s = ps @ sub @ ss)"
proof (induction s)
  case Nil
  then show ?case by auto
next
  case (Cons c cs)
  have "take (length sub) (c # cs) = sub \<longleftrightarrow> (\<exists>ss. c # cs = sub @ ss)"
    by (metis append_eq_conv_conj append_take_drop_id)
  moreover have "(\<exists>ps ss. c # cs = ps @ sub @ ss) \<longleftrightarrow>
      (\<exists>ss. c # cs = sub @ ss) \<or> (\<exists>ps ss. cs = ps @ sub @ ss)"
  proof
    assume "\<exists>ps ss. c # cs = ps @ sub @ ss"
    then obtain ps ss where e: "c # cs = ps @ sub @ ss" by blast
    show "(\<exists>ss. c # cs = sub @ ss) \<or> (\<exists>ps ss. cs = ps @ sub @ ss)"
    proof (cases ps)
      case Nil
      with e show ?thesis by auto
    next
      case (Cons p ps')
      with e have "cs = ps' @ sub @ ss" by simp
      then show ?thesis by blast
    qed
  next
    assume "(\<exists>ss. c # cs = sub @ ss) \<or> (\<exists>ps ss. cs = ps @ sub @ ss)"
    then show "\<exists>ps ss. c # cs = ps @ sub @ ss"
    proof
      assume "\<exists>ss. c # cs = sub @ ss"
      then show ?thesis by (metis append_Nil)
    next
      assume "\<exists>ps ss. cs = ps @ sub @ ss"
      then obtain ps ss where "cs = ps @ sub @ ss" by blast
      then have "c # cs = (c # ps) @ sub @ ss" by simp
      then show ?thesis by blast
    qed
  qed
  ultimately show ?case using Cons.IH by simp
qed

section \<open>Rejecting a request\<close>

lemma endpoint_rejects:
  "\<not> truthy (case map_of d ''content'' of None \<Rightarrow> JNull | Some x \<Rightarrow> x) \<Longrightarrow>
   analyze_news_endpoint env (JObj d) =
     (Json400 (JObj [(''error'', JStr ''News content is required.'')]), [])"
  by (simp add: analyze_news_endpoint_def)

lemma pipeline_calls_model:
  "\<exists>r rest. pipeline env t u =
     (r, ModelCall (AnalysisPrompt t (if truthy u then u else JStr ''Not provided'')) # rest)"
  by (auto simp: pipeline_def Let_def split: sum.splits prod.splits)

text \<open>
  C1. A request whose JSON object has no \<^verbatim>\<open>content\<close>, or has the empty string there,
  is answered with status 400 and the body \<^verbatim>\<open>{"error": "News content is required."}\<close>,
  and nothing is sent out: neither the model nor the registry is called.
\<close>

theorem missing_content_rejected:
  "map_of d ''content'' = None \<or> map_of d ''content'' = Some (JStr []) \<Longrightarrow>
   analyze_news_endpoint env (JObj d) =
     (Json400 (JObj [(''error'', JStr ''News content is required.'')]), [])
   \<and> status (fst (analyze_news_endpoint env (JObj d))) = 400"
  using endpoint_rejects [of d env] by auto

theorem missing_content_rejected_witness:
  "analyze_news_endpoint (stub_env ''{}'' ''a claim'' [] (Inr JNull))
       (JObj [(''url'', JStr ''http://a.example'')]) =
     (Json400 (JObj [(''error'', JStr ''News content is required.'')]), [])
   \<and> analyze_news_endpoint (stub_env ''{}'' ''a claim'' [] (Inr JNull))
       (JObj [(''content'', JStr [])]) =
     (Json400 (JObj [(''error'', JStr ''News content is required.'')]), [])"
  using missing_content_rejected [of "[(''url'', JStr ''http://a.example'')]"
      "stub_env ''{}'' ''a claim'' [] (Inr JNull)"]
    missing_content_rejected [of "[(''content'', JStr [])]"
      "stub_env ''{}'' ''a claim'' [] (Inr JNull)"]
  by simp

text \<open>
  C10. The test at line 102 is Python's truthiness of the value under \<^verbatim>\<open>content\<close>:
  the empty string, \<open>0\<close>, \<^verbatim>\<open>false\<close> and \<^verbatim>\<open>null\<close> are falsy, every string that is
  not empty (a blank one too) is truthy. A falsy value that is present is answered with
  the 400 and no call; a truthy value of any type is not answered with 400, and the
  first thing sent out is the analysis prompt built from it.
\<close>

theorem content_truthiness_decides:
  "(\<not> truthy (JStr []) \<and> \<not> truthy (JInt 0) \<and> \<not> truthy (JBool False) \<and> \<not> truthy JNull
    \<and> truthy (JStr s) = (s \<noteq> []))
   \<and> (map_of d ''content'' = Some v \<and> py_get (JObj d) ''url'' JNull = Inr u \<longrightarrow>
        (if truthy v
         then \<exists>r rest. analyze_news_endpoint env (JObj d) =
                  (r, ModelCall (AnalysisPrompt v (if truthy u then u else JStr ''Not provided''))
                      # rest)
                \<and> status r \<noteq> 400
         else analyze_news_endpoint env (JObj d) =
                (Json400 (JObj [(''error'', JStr ''News content is required.'')]), [])))"
proof -
  have "analyze_news_endpoint env (JObj d) =
          (Json400 (JObj [(''error'', JStr ''News content is required.'')]), [])"
    if "map_of d ''content'' = Some v" "\<not> truthy v"
    using that by (simp add: endpoint_rejects)
  moreover have "\<exists>r rest. analyze_news_endpoint env (JObj d) =
                  (r, ModelCall (AnalysisPrompt v (if truthy u then u else JStr ''Not provided''))
                      # rest)
                \<and> status r \<noteq> 400"
    if c: "map_of d ''content'' = Some v" and t: "truthy v"
      and g: "py_get (JObj d) ''url'' JNull = Inr u"
  proof -
    obtain r rest where p: "pipeline env v u =
        (r, ModelCall (AnalysisPrompt v (if truthy u then u else JStr ''Not provided'')) # rest)"
      using pipeline_calls_model by blast
    show ?thesis
      using c t g p by (cases r) (auto simp: analyze_news_endpoint_def)
  qed
  ultimately show ?thesis by simp
qed

theorem content_truthiness_decides_witness:
  "(\<exists>r rest. analyze_news_endpoint (stub_env ''{}'' ''a claim'' [] (Inr JNull))
        (JObj [(''content'', JStr ''  '')]) =
          (r, ModelCall (AnalysisPrompt (JStr ''  '') (JStr ''Not provided'')) # rest)
        \<and> status r \<noteq> 400)
   \<and> (\<exists>r rest. analyze_news_endpoint (stub_env ''{}'' ''a claim'' [] (Inr JNull))
        (JObj [(''content'', JArr [JInt 1]), (''url'', JStr ''http://a.example'')]) =
          (r, ModelCall (AnalysisPrompt (JArr [JInt 1]) (JStr ''http://a.example'')) # rest)
        \<and> status r \<noteq> 400)
   \<and> analyze_news_endpoint (stub_env ''{}'' ''a claim'' [] (Inr JNull))
        (JObj [(''content'', JInt 0)]) =
          (Json400 (JObj [(''error'', JStr ''News content is required.'')]), [])"
  using content_truthiness_decides [of "''  ''" "[(''content'', JStr ''  '')]" "JStr ''  ''" JNull
      "stub_env ''{}'' ''a claim'' [] (Inr JNull)"]
    content_truthiness_decides [of "''  ''"
      "[(''content'', JArr [JInt 1]), (''url'', JStr ''http://a.example'')]" "JArr [JInt 1]"
      "JStr ''http://a.example''" "stub_env ''{}'' ''a claim'' [] (Inr JNull)"]
    content_truthiness_decides [of "''  ''" "[(''content'', JInt 0)]" "JInt 0" JNull
      "stub_env ''{}'' ''a claim'' [] (Inr JNull)"]
  by simp

section \<open>Merging a verdict\<close>

lemma cite_obj:
  "map_of a ''explanation'' = Some (JStr e) \<Longrightarrow>
   cite up (JObj a) sentence v =
     Inr (JObj (AList.update ''classificationDisplay'' (JStr (''FACT-CHECKED: '' @ up v))
                 (AList.update ''explanation'' (JStr (sentence @ e)) a)))"
  by (simp add: cite_def bind_exn_def)

lemma merge_false_branch:
  assumes "any_word false_words (lower v)"
    and "map_of a ''credibilityScore'' = Some (JInt n)"
    and "map_of a ''explanation'' = Some (JStr e)"
  shows "merge_verdict up (JObj a) (JStr v) =
     Inr (JObj (AList.update ''classificationDisplay'' (JStr (''FACT-CHECKED: '' @ up v))
                 (AList.update ''explanation''
                    (JStr (''External fact-check confirms this claim is '' @ v @ ''. '' @ e))
                   (AList.update ''credibilityScore'' (JInt (min n 20))
                     (AList.update ''classification'' (JStr ''fake'') a)))))"
proof -
  let ?a1 = "AList.update ''classification'' (JStr ''fake'') a"
  let ?a2 = "AList.update ''credibilityScore'' (JInt (min n 20)) ?a1"
  have s: "map_of ?a1 ''credibilityScore'' = Some (JInt n)"
    using assms(2) by (simp add: update_conv')
  have m: "py_min (JInt n) 20 = Inr (JInt (min n 20))"
    by (simp add: min_def)
  have e: "map_of ?a2 ''explanation'' = Some (JStr e)"
    using assms(3) by (simp add: update_conv')
  show ?thesis
    using assms(1) s m by (simp add: merge_verdict_def bind_exn_def cite_obj [OF e])
qed

lemma merge_true_branch:
  assumes "\<not> any_word false_words (lower v)"
    and "any_word true_words (lower v)"
    and "map_of a ''credibilityScore'' = Some (JInt n)"
    and "map_of a ''explanation'' = Some (JStr e)"
  shows "merge_verdict up (JObj a) (JStr v) =
     Inr (JObj (AList.update ''classificationDisplay'' (JStr (''FACT-CHECKED: '' @ up v))
                 (AList.update ''explanation''
                    (JStr (''External fact-check confirms this claim is '' @ v @ ''. '' @ e))
                   (AList.update ''credibilityScore'' (JInt (max n 80))
                     (AList.update ''classification'' (JStr ''real'') a)))))"
proof -
  let ?a1 = "AList.update ''classification'' (JStr ''real'') a"
  let ?a2 = "AList.update ''credibilityScore'' (JInt (max n 80)) ?a1"
  have s: "map_of ?a1 ''credibilityScore'' = Some (JInt n)"
    using assms(3) by (simp add: update_conv')
  have m: "py_max (JInt n) 80 = Inr (JInt (max n 80))"
    by (simp add: max_def)
  have e: "map_of ?a2 ''explanation'' = Some (JStr e)"
    using assms(4) by (simp add: update_conv')
  show ?thesis
    using assms(1,2) s m by (simp add: merge_verdict_def bind_exn_def cite_obj [OF e])
qed

lemma merge_other_branch:
  assumes "\<not> any_word false_words (lower v)"
    and "\<not> any_word true_words (lower v)"
    and "map_of a ''explanation'' = Some (JStr e)"
  shows "merge_verdict up (JObj a) (JStr v) =
     Inr (JObj (AList.update ''classificationDisplay'' (JStr (''FACT-CHECKED: '' @ up v))
                 (AList.update ''explanation'' (JStr (''External fact-check verdict: '' @ v @ ''. '' @ e))
                   (AList.update ''classification'' (JStr ''uncertain'') a))))"
proof -
  let ?a1 = "AList.update ''classification'' (JStr ''uncertain'') a"
  have e: "map_of ?a1 ''explanation'' = Some (JStr e)"
    using assms(3) by (simp add: update_conv')
  show ?thesis
    using assms(1,2) by (simp add: merge_verdict_def bind_exn_def cite_obj [OF e])
qed

text \<open>
  C2. When the rating of the registry, put in lowercase, contains \<^verbatim>\<open>false\<close>,
  \<^verbatim>\<open>debunked\<close> or \<^verbatim>\<open>misinformation\<close>, the merge step applied to a result with an
  integer score and a textual explanation sets the classification to \<^verbatim>\<open>fake\<close>, the
  score to the least of the prior score and 20, puts the sentence that cites the
  rating before the explanation, and sets the display string to \<^verbatim>\<open>FACT-CHECKED: \<close>
  and what \<^verbatim>\<open>str.upper\<close> makes of the rating, whatever the rating and whatever
  \<^verbatim>\<open>str.upper\<close> does to it; no other key changes. For the rating \<^verbatim>\<open>False\<close>, which
  \<^verbatim>\<open>str.upper\<close> turns into \<^verbatim>\<open>FALSE\<close>, the display string is
  \<^verbatim>\<open>FACT-CHECKED: FALSE\<close>.
\<close>

theorem false_verdict_forces_fake:
  assumes "str_contains (lower v) ''false'' \<or> str_contains (lower v) ''debunked''
           \<or> str_contains (lower v) ''misinformation''"
    and "map_of a ''credibilityScore'' = Some (JInt n)"
    and "map_of a ''explanation'' = Some (JStr e)"
  shows "\<exists>m. merge_verdict up (JObj a) (JStr v) = Inr (JObj m)
     \<and> map_of m ''classification'' = Some (JStr ''fake'')
     \<and> map_of m ''credibilityScore'' = Some (JInt (min n 20))
     \<and> map_of m ''explanation'' =
         Some (JStr (''External fact-check confirms this claim is '' @ v @ ''. '' @ e))
     \<and> map_of m ''classificationDisplay'' = Some (JStr (''FACT-CHECKED: '' @ up v))
     \<and> (\<forall>k. k \<notin> {''classification'', ''credibilityScore'', ''explanation'', ''classificationDisplay''}
            \<longrightarrow> map_of m k = map_of a k)"
proof -
  from assms(1) have "any_word false_words (lower v)"
    by (auto simp: any_word_def false_words_def)
  from merge_false_branch [OF this assms(2,3)] show ?thesis
    by (simp add: update_conv')
qed

theorem false_verdict_forces_fake_witness:
  "str_contains (lower ''False'') ''false''
   \<and> (\<exists>m. merge_verdict ascii_upper (JObj sober) (JStr ''False'') = Inr (JObj m)
       \<and> map_of m ''classification'' = Some (JStr ''fake'')
       \<and> map_of m ''credibilityScore'' = Some (JInt 20)
       \<and> map_of m ''explanation'' =
           Some (JStr ''External fact-check confirms this claim is False. Sober tone.'')
       \<and> map_of m ''classificationDisplay'' = Some (JStr ''FACT-CHECKED: FALSE'')
       \<and> map_of m ''details'' = Some (JObj []))"
proof -
  have "lower ''False'' = ''false''"
    by (simp add: lower_def lower_char_def ascii_uppercase_def ascii_lowercase_def
      latin_uppercase_def latin_lowercase_def)
  then have k: "str_contains (lower ''False'') ''false''"
    by simp
  have u: "ascii_upper ''False'' = ''FALSE''"
    by (simp add: ascii_upper_def ascii_uppercase_def ascii_lowercase_def)
  have s: "map_of sober ''credibilityScore'' = Some (JInt 70)"
    and e: "map_of sober ''explanation'' = Some (JStr ''Sober tone.'')"
    and d: "map_of sober ''details'' = Some (JObj [])"
    by (simp_all add: sober_def)
  from false_verdict_forces_fake [where v = "''False''" and up = ascii_upper, OF _ s e] k
  obtain m where m: "merge_verdict ascii_upper (JObj sober) (JStr ''False'') = Inr (JObj m)"
    "map_of m ''classification'' = Some (JStr ''fake'')"
    "map_of m ''credibilityScore'' = Some (JInt (min 70 20))"
    "map_of m ''explanation'' =
       Some (JStr (''External fact-check confirms this claim is '' @ ''False'' @ ''. ''
                   @ ''Sober tone.''))"
    "map_of m ''classificationDisplay'' = Some (JStr (''FACT-CHECKED: '' @ ascii_upper ''False''))"
    "\<forall>k. k \<notin> {''classification'', ''credibilityScore'', ''explanation'',
                 ''classificationDisplay''} \<longrightarrow> map_of m k = map_of sober k"
    by blast
  from m(6) d have "map_of m ''details'' = Some (JObj [])"
    by simp
  with m(1-5) k u show ?thesis by simp
qed

text \<open>
  C3. The three branches are tried on the lowercase rating in a fixed order and exactly
  one applies: a rating with a false-word is \<^verbatim>\<open>fake\<close> even when it has a true-word
  too; a rating with a true-word and no false-word is \<^verbatim>\<open>real\<close>, with the score raised
  to the greatest of the prior score and 80; every other rating is \<^verbatim>\<open>uncertain\<close>, the
  score left as it was.
\<close>

theorem merge_branches_ordered:
  assumes "map_of a ''credibilityScore'' = Some (JInt n)"
    and "map_of a ''explanation'' = Some (JStr e)"
  shows "\<exists>m. merge_verdict up (JObj a) (JStr v) = Inr (JObj m)
     \<and> (any_word false_words (lower v) \<and> any_word true_words (lower v) \<longrightarrow>
          map_of m ''classification'' = Some (JStr ''fake''))
     \<and> (\<not> any_word false_words (lower v) \<and> any_word true_words (lower v) \<longrightarrow>
          map_of m ''classification'' = Some (JStr ''real'')
          \<and> map_of m ''credibilityScore'' = Some (JInt (max n 80)))
     \<and> (\<not> any_word false_words (lower v) \<and> \<not> any_word true_words (lower v) \<longrightarrow>
          map_of m ''classification'' = Some (JStr ''uncertain'')
          \<and> map_of m ''credibilityScore'' = Some (JInt n))
     \<and> map_of m ''classification'' =
          Some (JStr (if any_word false_words (lower v) then ''fake''
                      else if any_word true_words (lower v) then ''real''
                      else ''uncertain''))"
proof (cases "any_word false_words (lower v)")
  case True
  from merge_false_branch [OF True assms] True show ?thesis
    by (simp add: update_conv')
next
  case False
  show ?thesis
  proof (cases "any_word true_words (lower v)")
    case True
    from merge_true_branch [OF False True assms] False True show ?thesis
      by (simp add: update_conv')
  next
    case no: False
    from merge_other_branch [OF False no assms(2)] False no assms(1) show ?thesis
      by (simp add: update_conv')
  qed
qed

lemma words_in_examples:
  "any_word false_words (lower ''True? No: FALSE'')" "any_word true_words (lower ''True? No: FALSE'')"
  "\<not> any_word false_words (lower ''Mostly True'')" "any_word true_words (lower ''Mostly True'')"
  "\<not> any_word false_words (lower ''Unproven'')" "\<not> any_word true_words (lower ''Unproven'')"
  by (simp_all add: any_word_def false_words_def true_words_def lower_def lower_char_def
      ascii_uppercase_def ascii_lowercase_def latin_uppercase_def latin_lowercase_def)

theorem merge_branches_ordered_witness:
  "(\<exists>m. merge_verdict ascii_upper (JObj sober) (JStr ''True? No: FALSE'') = Inr (JObj m)
        \<and> map_of m ''classification'' = Some (JStr ''fake''))
   \<and> (\<exists>m. merge_verdict ascii_upper (JObj sober) (JStr ''Mostly True'') = Inr (JObj m)
        \<and> map_of m ''classification'' = Some (JStr ''real'')
        \<and> map_of m ''credibilityScore'' = Some (JInt 80))
   \<and> (\<exists>m. merge_verdict ascii_upper (JObj sober) (JStr ''Unproven'') = Inr (JObj m)
        \<and> map_of m ''classification'' = Some (JStr ''uncertain'')
        \<and> map_of m ''credibilityScore'' = Some (JInt 70))"
proof -
  have s: "map_of sober ''credibilityScore'' = Some (JInt 70)"
    and e: "map_of sober ''explanation'' = Some (JStr ''Sober tone.'')"
    by (simp_all add: sober_def)
  show ?thesis
    using merge_branches_ordered [OF s e, where v = "''True? No: FALSE''" and up = ascii_upper]
      merge_branches_ordered [OF s e, where v = "''Mostly True''" and up = ascii_upper]
      merge_branches_ordered [OF s e, where v = "''Unproven''" and up = ascii_upper]
      words_in_examples
    by auto
qed

section \<open>The assessor\<close>

lemma locate_json_span:
  assumes "i < j" "j < length t"
    and "t ! i = CHR ''{''" "\<forall>k<i. t ! k \<noteq> CHR ''{''"
    and "t ! j = CHR ''}''" "\<forall>k. j < k \<and> k < length t \<longrightarrow> t ! k \<noteq> CHR ''}''"
  shows "locate_json t = (take (Suc j - i) (drop i t), JObj [])"
proof -
  have f: "str_find t CHR ''{'' = int i"
    using assms(1,2,3,4) by (intro str_find_first) auto
  have r: "str_rfind t CHR ''}'' = int j"
    using assms(2,5,6) by (intro str_rfind_last) auto
  have "nat (int j + 1) = Suc j" by simp
  then have "slice t (int i) (int j + 1) = take (Suc j - i) (drop i t)"
    by (simp add: slice_def drop_take)
  with f r assms(1) show ?thesis
    by (simp add: locate_json_def Let_def)
qed

lemma locate_json_pair:
  assumes "i < j" "j < length t" "t ! i = CHR ''{''" "t ! j = CHR ''}''"
  shows "\<exists>i0 j0. i0 \<le> i \<and> j \<le> j0 \<and> j0 < length t
           \<and> t ! i0 = CHR ''{'' \<and> (\<forall>k<i0. t ! k \<noteq> CHR ''{'')
           \<and> t ! j0 = CHR ''}'' \<and> (\<forall>k. j0 < k \<and> k < length t \<longrightarrow> t ! k \<noteq> CHR ''}'')
           \<and> locate_json t = (take (Suc j0 - i0) (drop i0 t), JObj [])"
proof -
  have "CHR ''{'' \<in> set t"
    using assms(1,2,3) by (metis less_trans nth_mem)
  then have "str_find t CHR ''{'' \<noteq> -1"
    by (simp add: str_find_absent)
  then obtain i0 where i0: "i0 < length t" "t ! i0 = CHR ''{''" "\<forall>k<i0. t ! k \<noteq> CHR ''{''"
    using str_find_hit by blast
  have "CHR ''}'' \<in> set t"
    using assms(2,4) by (metis nth_mem)
  then have "str_rfind t CHR ''}'' \<noteq> -1"
    by (simp add: str_rfind_absent)
  then obtain j0 where j0: "j0 < length t" "t ! j0 = CHR ''}''"
      "\<forall>k. j0 < k \<and> k < length t \<longrightarrow> t ! k \<noteq> CHR ''}''"
    using str_rfind_hit by blast
  have a: "i0 \<le> i"
    using i0(3) assms(3) by (meson not_less)
  have b: "j \<le> j0"
    using j0(3) assms(2,4) by (meson not_less)
  from a b assms(1) have "i0 < j0" by simp
  from locate_json_span [OF this j0(1) i0(2,3) j0(2,3)] a b i0 j0 show ?thesis
    by blast
qed

lemma locate_json_candidate:
  assumes "i < j" "j < length t" "t ! i = CHR ''{''" "t ! j = CHR ''}''"
  shows "fst (locate_json t) \<noteq> []"
proof -
  from locate_json_pair [OF assms] obtain i0 j0 where
    "i0 \<le> i" "j \<le> j0" "j0 < length t"
    "locate_json t = (take (Suc j0 - i0) (drop i0 t), JObj [])"
    by blast
  with assms(1) show ?thesis by auto
qed

lemma locate_json_no_pair:
  assumes "\<not> (\<exists>i j. i < j \<and> j < length t \<and> t ! i = CHR ''{'' \<and> t ! j = CHR ''}'')"
  shows "locate_json t = ([], default_could_not_parse)"
proof -
  have "\<not> (str_find t CHR ''{'' \<noteq> -1 \<and> str_rfind t CHR ''}'' \<noteq> -1
            \<and> str_rfind t CHR ''}'' > str_find t CHR ''{'')"
  proof
    assume c: "str_find t CHR ''{'' \<noteq> -1 \<and> str_rfind t CHR ''}'' \<noteq> -1
            \<and> str_rfind t CHR ''}'' > str_find t CHR ''{''"
    then obtain i where i: "str_find t CHR ''{'' = int i" "t ! i = CHR ''{''"
      using str_find_hit by blast
    from c obtain j where j: "str_rfind t CHR ''}'' = int j" "j < length t" "t ! j = CHR ''}''"
      using str_rfind_hit by blast
    from c i(1) j(1) have "i < j" by simp
    with i j assms show False by blast
  qed
  then show ?thesis
    by (auto simp: locate_json_def Let_def)
qed

lemma truthy_default_could_not_parse: "truthy default_could_not_parse"
  by (simp add: default_could_not_parse_def fallback_def)

text \<open>
  The test of line 178 never succeeds: whenever \<^verbatim>\<open>json_string\<close> is empty, line 157
  has made \<^verbatim>\<open>ai_result\<close> a dict that is not empty.
\<close>

lemma no_json_branch_unreachable:
  "fst (locate_json t) = [] \<Longrightarrow> truthy (snd (locate_json t))"
proof (cases "\<exists>i j. i < j \<and> j < length t \<and> t ! i = CHR ''{'' \<and> t ! j = CHR ''}''")
  case True
  then obtain i j where "i < j" "j < length t" "t ! i = CHR ''{''" "t ! j = CHR ''}''"
    by blast
  then have "fst (locate_json t) \<noteq> []"
    by (rule locate_json_candidate)
  moreover assume "fst (locate_json t) = []"
  ultimately show ?thesis by simp
next
  case False
  then show ?thesis
    by (simp add: locate_json_no_pair truthy_default_could_not_parse)
qed

lemma all_in_obj:
  "all_in ks (JObj obj) = Inr (\<forall>k\<in>set ks. map_of obj k \<noteq> None)"
  by (induction ks) (auto simp: bind_exn_def)

lemma parse_result_empty:
  "parse_result loads ([], default_could_not_parse) = Inr default_could_not_parse"
  by (simp add: parse_result_def truthy_default_could_not_parse)

lemma parse_result_object:
  "s \<noteq> [] \<Longrightarrow> loads s = Inr (JObj obj) \<Longrightarrow>
   parse_result loads (s, a) =
     Inr (if \<forall>k\<in>set required_keys. map_of obj k \<noteq> None then JObj obj else default_missing_keys)"
  by (auto simp: parse_result_def all_in_obj bind_exn_def)

lemma parse_result_malformed:
  "s \<noteq> [] \<Longrightarrow> loads s = Inl JSONDecodeError \<Longrightarrow> parse_result loads (s, a) = Inr default_malformed"
  by (simp add: parse_result_def)

lemma messages_distinct:
  "could_not_parse_msg \<noteq> missing_keys_msg" "could_not_parse_msg \<noteq> malformed_msg"
  "missing_keys_msg \<noteq> malformed_msg" "could_not_parse_msg \<noteq> no_json_msg"
  by (simp_all add: could_not_parse_msg_def missing_keys_msg_def malformed_msg_def no_json_msg_def)

lemma fallback_fields:
  "py_getitem (fallback x y) ''credibilityScore'' = Inr (JInt 50)"
  "py_getitem (fallback x y) ''classification'' = Inr (JStr ''uncertain'')"
  "py_getitem (fallback x y) ''explanation'' = Inr (JStr x)"
  "py_getitem (fallback x y) ''details'' =
     Inr (JObj [(''sourceReliability'', JInt 50), (''contentAnalysis'', JInt 50),
                (''factChecking'', JInt 50), (''linguisticAnalysis'', JInt 50)])"
  by (simp_all add: fallback_def fifty_details_def)

lemma default_fields:
  "py_getitem default_missing_keys ''credibilityScore'' = Inr (JInt 50)"
  "py_getitem default_missing_keys ''classification'' = Inr (JStr ''uncertain'')"
  "py_getitem default_missing_keys ''details'' =
     Inr (JObj [(''sourceReliability'', JInt 50), (''contentAnalysis'', JInt 50),
                (''factChecking'', JInt 50), (''linguisticAnalysis'', JInt 50)])"
  "py_getitem default_missing_keys ''explanation'' = Inr (JStr missing_keys_msg)"
  "py_getitem default_malformed ''credibilityScore'' = Inr (JInt 50)"
  "py_getitem default_malformed ''classification'' = Inr (JStr ''uncertain'')"
  "py_getitem default_malformed ''details'' =
     Inr (JObj [(''sourceReliability'', JInt 50), (''contentAnalysis'', JInt 50),
                (''factChecking'', JInt 50), (''linguisticAnalysis'', JInt 50)])"
  "py_getitem default_malformed ''explanation'' = Inr (JStr malformed_msg)"
  unfolding default_missing_keys_def default_malformed_def by (rule fallback_fields)+

lemma assess_object:
  assumes "i < j" "j < length t" "t ! i = CHR ''{''" "t ! j = CHR ''}''"
    and "loads (fst (locate_json t)) = Inr (JObj obj)"
  shows "assess loads t =
     Inr (if \<forall>k\<in>set required_keys. map_of obj k \<noteq> None then JObj obj else default_missing_keys)"
proof -
  have n: "fst (locate_json t) \<noteq> []"
    using assms(1-4) by (rule locate_json_candidate)
  obtain s a where l: "locate_json t = (s, a)" by (cases "locate_json t")
  with n assms(5) have "s \<noteq> []" "loads s = Inr (JObj obj)" by simp_all
  then show ?thesis
    unfolding assess_def l by (rule parse_result_object)
qed

lemma assess_malformed:
  assumes "i < j" "j < length t" "t ! i = CHR ''{''" "t ! j = CHR ''}''"
    and "loads (fst (locate_json t)) = Inl JSONDecodeError"
  shows "assess loads t = Inr default_malformed"
proof -
  have n: "fst (locate_json t) \<noteq> []"
    using assms(1-4) by (rule locate_json_candidate)
  obtain s a where l: "locate_json t = (s, a)" by (cases "locate_json t")
  with n assms(5) have "s \<noteq> []" "loads s = Inl JSONDecodeError" by simp_all
  then show ?thesis
    unfolding assess_def l by (rule parse_result_malformed)
qed

lemma candidate_examples:
  "fst (locate_json ''{}'') = ''{}''"
  "fst (locate_json helpful_answer) = unclassified_text"
  "fst (locate_json fenced_answer) = scored_text"
  by (simp_all add: locate_json_def slice_def helpful_answer_def fenced_answer_def
      unclassified_text_def scored_text_def)

lemma decoder_examples:
  "decoder ''{}'' = Inr (JObj [])"
  "decoder unclassified_text = Inr (JObj unclassified)"
  "decoder scored_text = Inr (JObj scored)"
  by (simp_all add: decoder_def decoder_table_def loads_of_def unclassified_text_def
      scored_text_def)

lemma braces_in_examples:
  "helpful_answer ! 12 = CHR ''{''" "helpful_answer ! 66 = CHR ''}''" "length helpful_answer = 82"
  "fenced_answer ! 14 = CHR ''{''" "fenced_answer ! 92 = CHR ''}''" "length fenced_answer = 97"
  by (simp_all add: helpful_answer_def fenced_answer_def unclassified_text_def scored_text_def)

text \<open>
  C4, as the code has it. When no \<^verbatim>\<open>{\<close> of the answer stands before a \<^verbatim>\<open>}\<close> (one of
  the two is absent, or the last \<^verbatim>\<open>}\<close> is not after the first \<^verbatim>\<open>{\<close>), the assessor
  returns the fixed default: score 50, classification \<^verbatim>\<open>uncertain\<close>, the four sub-scores
  50. Its explanation is the message of line 160, "Could not parse Gemini's response
  (not valid JSON or incomplete)", which differs from the messages of the two other
  failures. The message of line 181, "No JSON string found", is not the one returned:
  line 157 has filled \<^verbatim>\<open>ai_result\<close> before line 178 tests it.
\<close>

theorem no_braces_gives_could_not_parse:
  assumes "\<not> (\<exists>i j. i < j \<and> j < length t \<and> t ! i = CHR ''{'' \<and> t ! j = CHR ''}'')"
  shows "assess loads t = Inr default_could_not_parse
     \<and> py_getitem default_could_not_parse ''credibilityScore'' = Inr (JInt 50)
     \<and> py_getitem default_could_not_parse ''classification'' = Inr (JStr ''uncertain'')
     \<and> py_getitem default_could_not_parse ''details'' =
         Inr (JObj [(''sourceReliability'', JInt 50), (''contentAnalysis'', JInt 50),
                    (''factChecking'', JInt 50), (''linguisticAnalysis'', JInt 50)])
     \<and> py_getitem default_could_not_parse ''explanation'' = Inr (JStr could_not_parse_msg)
     \<and> could_not_parse_msg \<noteq> missing_keys_msg \<and> could_not_parse_msg \<noteq> malformed_msg
     \<and> missing_keys_msg \<noteq> malformed_msg"
proof -
  have "assess loads t = Inr default_could_not_parse"
    by (simp add: assess_def locate_json_no_pair [OF assms] parse_result_empty)
  moreover have "py_getitem default_could_not_parse ''credibilityScore'' = Inr (JInt 50)"
    "py_getitem default_could_not_parse ''classification'' = Inr (JStr ''uncertain'')"
    "py_getitem default_could_not_parse ''details'' =
         Inr (JObj [(''sourceReliability'', JInt 50), (''contentAnalysis'', JInt 50),
                    (''factChecking'', JInt 50), (''linguisticAnalysis'', JInt 50)])"
    "py_getitem default_could_not_parse ''explanation'' = Inr (JStr could_not_parse_msg)"
    unfolding default_could_not_parse_def by (rule fallback_fields)+
  ultimately show ?thesis
    using messages_distinct by simp
qed

theorem no_braces_gives_could_not_parse_witness:
  "assess (loads_of []) ''} I cannot judge this text. {'' = Inr default_could_not_parse
   \<and> py_getitem default_could_not_parse ''explanation'' = Inr (JStr could_not_parse_msg)"
proof -
  have "\<not> (\<exists>i j. i < j \<and> j < length ''} I cannot judge this text. {''
           \<and> ''} I cannot judge this text. {'' ! i = CHR ''{''
           \<and> ''} I cannot judge this text. {'' ! j = CHR ''}'')"
  proof
    assume "\<exists>i j. i < j \<and> j < length ''} I cannot judge this text. {''
           \<and> ''} I cannot judge this text. {'' ! i = CHR ''{''
           \<and> ''} I cannot judge this text. {'' ! j = CHR ''}''"
    then obtain i j where h: "i < j" "j < length ''} I cannot judge this text. {''"
      "''} I cannot judge this text. {'' ! i = CHR ''{''"
      "''} I cannot judge this text. {'' ! j = CHR ''}''"
      by blast
    from locate_json_candidate [OF h] show False
      by (simp add: locate_json_def slice_def)
  qed
  from no_braces_gives_could_not_parse [OF this, of "loads_of []"] show ?thesis
    by simp
qed

text \<open>
  The answer \<^verbatim>\<open>I cannot judge this text.\<close> has no brace; the explanation returned is
  the message of line 160 and not the message of line 181.
\<close>

theorem no_json_found_message_counterexample:
  "assess (loads_of []) ''I cannot judge this text.'' = Inr default_could_not_parse
   \<and> py_getitem default_could_not_parse ''explanation''
       = Inr (JStr ''AI content analysis failed: Could not parse Gemini's response (not valid JSON or incomplete).'')
   \<and> py_getitem default_could_not_parse ''explanation''
       \<noteq> Inr (JStr ''AI content analysis failed: No JSON string found in Gemini's response.'')"
  by (simp add: assess_def locate_json_def parse_result_def default_could_not_parse_def
      fallback_def could_not_parse_msg_def)

text \<open>
  C5. When the answer has a \<^verbatim>\<open>{\<close> before a \<^verbatim>\<open>}\<close> and the text from the first \<^verbatim>\<open>{\<close>
  to the last \<^verbatim>\<open>}\<close> decodes to an object that lacks one of the four required keys,
  the assessor returns the fixed default whose explanation is the "unexpected structure
  (missing keys)" message, and nothing of the decoded object.
\<close>

theorem missing_keys_replaced_wholesale:
  assumes "i < j" "j < length t" "t ! i = CHR ''{''" "t ! j = CHR ''}''"
    and "loads (fst (locate_json t)) = Inr (JObj obj)"
    and "\<exists>k\<in>set required_keys. map_of obj k = None"
  shows "assess loads t = Inr default_missing_keys
     \<and> py_getitem default_missing_keys ''credibilityScore'' = Inr (JInt 50)
     \<and> py_getitem default_missing_keys ''classification'' = Inr (JStr ''uncertain'')
     \<and> py_getitem default_missing_keys ''details'' =
         Inr (JObj [(''sourceReliability'', JInt 50), (''contentAnalysis'', JInt 50),
                    (''factChecking'', JInt 50), (''linguisticAnalysis'', JInt 50)])
     \<and> py_getitem default_missing_keys ''explanation'' =
         Inr (JStr ''AI content analysis returned an unexpected structure (missing keys).'')"
proof -
  from assms(6) have "\<not> (\<forall>k\<in>set required_keys. map_of obj k \<noteq> None)" by blast
  with assess_object [where loads = loads and obj = obj, OF assms(1-5)]
  have "assess loads t = Inr default_missing_keys"
    by auto
  then show ?thesis
    by (simp add: default_fields missing_keys_msg_def)
qed

theorem missing_keys_replaced_wholesale_witness:
  "assess decoder ''{}'' = Inr default_missing_keys
   \<and> assess decoder helpful_answer = Inr default_missing_keys"
proof -
  have a: "decoder (fst (locate_json ''{}'')) = Inr (JObj [])"
    by (simp only: candidate_examples decoder_examples)
  have b: "decoder (fst (locate_json helpful_answer)) = Inr (JObj unclassified)"
    by (simp only: candidate_examples decoder_examples)
  have k: "\<exists>k\<in>set required_keys. map_of [] k = (None :: json option)"
    "\<exists>k\<in>set required_keys. map_of unclassified k = None"
    by (rule bexI [of _ "''classification''"], simp, simp add: required_keys_def,
        rule bexI [of _ "''classification''"], simp add: unclassified_def,
        simp add: required_keys_def)
  have p: "(0::nat) < 1" "1 < length ''{}''" "''{}'' ! 0 = CHR ''{''" "''{}'' ! 1 = CHR ''}''"
    by simp_all
  have q: "(12::nat) < 66" "66 < length helpful_answer"
    "helpful_answer ! 12 = CHR ''{''" "helpful_answer ! 66 = CHR ''}''"
    by (simp_all add: braces_in_examples)
  show ?thesis
    using missing_keys_replaced_wholesale [where loads = decoder, OF p a k(1)]
      missing_keys_replaced_wholesale [where loads = decoder, OF q b k(2)]
    by simp
qed

section \<open>What the endpoint answers once the assessor has a result\<close>

lemma merge_verdict_total:
  assumes "map_of a ''credibilityScore'' = Some (JInt n)"
    and "map_of a ''explanation'' = Some (JStr e)"
  shows "\<exists>m. merge_verdict up (JObj a) (JStr s) = Inr (JObj m)"
proof (cases "any_word false_words (lower s)")
  case True
  from merge_false_branch [OF True assms] show ?thesis by blast
next
  case False
  show ?thesis
  proof (cases "any_word true_words (lower s)")
    case True
    from merge_true_branch [OF False True assms] show ?thesis by blast
  next
    case no: False
    from merge_other_branch [OF False no assms(2)] show ?thesis by blast
  qed
qed

lemma merge_verdict_not_text:
  "\<forall>s. rating \<noteq> JStr s \<Longrightarrow> merge_verdict up ai rating = Inl AttributeError"
  by (cases rating) (simp_all add: merge_verdict_def)

lemma final_result_obj: "\<exists>b. final_result (JObj m) fc = Inr b"
  by (cases fc) (simp_all add: final_result_def)

lemma verify_claim_outcome:
  assumes "map_of a ''credibilityScore'' = Some (JInt n)"
    and "map_of a ''explanation'' = Some (JStr e)"
  shows "(\<exists>b sent. verify_claim env v (JObj a) = (Inr b, sent))
     \<or> (\<exists>sent c f q. verify_claim env v (JObj a) = (Inl AttributeError, sent)
           \<and> query_fact_check_api env c = (Some f, q) \<and> (\<forall>s. verdict f \<noteq> JStr s))"
proof (cases "extract_claim_with_gemini env v")
  case None
  then show ?thesis
    using final_result_obj [of a None] by (auto simp: verify_claim_def)
next
  case (Some c)
  show ?thesis
  proof (cases "c = []")
    case True
    with Some show ?thesis
      using final_result_obj [of a None] by (auto simp: verify_claim_def)
  next
    case False
    obtain fc q where q: "query_fact_check_api env c = (fc, q)"
      by (cases "query_fact_check_api env c")
    show ?thesis
    proof (cases fc)
      case None
      with Some False q show ?thesis
        using final_result_obj [of a None] by (auto simp: verify_claim_def)
    next
      case f: (Some f)
      show ?thesis
      proof (cases "\<exists>s. verdict f = JStr s")
        case True
        then obtain s where s: "verdict f = JStr s" by blast
        obtain m where m: "merge_verdict (str_upper env) (JObj a) (JStr s) = Inr (JObj m)"
          using merge_verdict_total [OF assms] by blast
        obtain b where "final_result (JObj m) (Some f) = Inr b"
          using final_result_obj by blast
        with Some False q f s m show ?thesis
          by (auto simp: verify_claim_def bind_exn_def)
      next
        case no: False
        then have "merge_verdict (str_upper env) (JObj a) (verdict f) = Inl AttributeError"
          by (intro merge_verdict_not_text) blast
        with Some False q f have "verify_claim env v (JObj a) =
            (Inl AttributeError, ModelCall (ClaimPrompt v) # q)"
          by (simp add: verify_claim_def bind_exn_def)
        with q f no show ?thesis by blast
      qed
    qed
  qed
qed

lemma endpoint_assessed:
  assumes "map_of d ''content'' = Some v" "truthy v"
    and "py_get (JObj d) ''url'' JNull = Inr u"
    and "generate_content env (AnalysisPrompt v (if truthy u then u else JStr ''Not provided''))
           = Inr r"
    and "response_text r = Inr t"
    and "assess (json_loads env) t = Inr ai"
    and "verify_claim env v ai = (out, sent)"
  shows "analyze_news_endpoint env (JObj d) =
     ((case out of Inl e \<Rightarrow> Json500 e | Inr b \<Rightarrow> Json200 b),
      ModelCall (AnalysisPrompt v (if truthy u then u else JStr ''Not provided'')) # sent)"
  using assms
  by (auto simp: analyze_news_endpoint_def pipeline_def Let_def bind_exn_def split: sum.splits)


lemma endpoint_assess_raises:
  assumes "map_of d ''content'' = Some v" "truthy v"
    and "py_get (JObj d) ''url'' JNull = Inr u"
    and "generate_content env (AnalysisPrompt v (if truthy u then u else JStr ''Not provided''))
           = Inr r"
    and "response_text r = Inr t"
    and "assess (json_loads env) t = Inl e"
  shows "analyze_news_endpoint env (JObj d) =
     (Json500 e, [ModelCall (AnalysisPrompt v (if truthy u then u else JStr ''Not provided''))])"
  using assms
  by (auto simp: analyze_news_endpoint_def pipeline_def Let_def bind_exn_def split: sum.splits)

lemma default_malformed_typed:
  "\<exists>a. default_malformed = JObj a \<and> map_of a ''credibilityScore'' = Some (JInt 50)
       \<and> map_of a ''explanation'' = Some (JStr malformed_msg)"
  by (simp add: default_malformed_def fallback_def)

lemma trailing_comma_braces:
  "(0::nat) < 23" "23 < length trailing_comma_answer"
  "trailing_comma_answer ! 0 = CHR ''{''" "trailing_comma_answer ! 23 = CHR ''}''"
  and trailing_comma_candidate: "fst (locate_json trailing_comma_answer) = trailing_comma_answer"
  and trailing_comma_rejected: "decoder trailing_comma_answer = Inl JSONDecodeError"
  by (simp_all add: trailing_comma_answer_def locate_json_def slice_def decoder_def
      decoder_table_def loads_of_def scored_text_def unclassified_text_def tagged_text_def)

lemma stub_env_fields:
  "generate_content (stub_env x c tb rg) (AnalysisPrompt v u) = answer x"
  "generate_content (stub_env x c tb rg) (ClaimPrompt v) = answer c"
  "json_loads (stub_env x c tb rg) = loads_of tb"
  "str_upper (stub_env x c tb rg) = ascii_upper"
  "GOOGLE_FACT_CHECK_API_KEY (stub_env x c tb rg) = ''key''"
  "requests_get_json (stub_env x c tb rg) q = rg"
  by (simp_all add: stub_env_def)

lemma answer_text: "\<exists>r. answer x = Inr r \<and> response_text r = Inr x \<and> candidates r = [[x]]"
  by (simp add: answer_def response_text_def)


lemma no_review_in_empty: "first_review (JObj []) = Inr None"
  by (simp add: first_review_def bind_exn_def)

lemma malformed_env_no_rating: "fst (query_fact_check_api malformed_env c) = None"
  by (simp add: query_fact_check_api_def malformed_env_def stub_env_fields no_review_in_empty)

text \<open>
  C6, as the code has it. When the answer has a \<^verbatim>\<open>{\<close> before a \<^verbatim>\<open>}\<close> and decoding
  the text from the first \<^verbatim>\<open>{\<close> to the last \<^verbatim>\<open>}\<close> raises \<^verbatim>\<open>json.JSONDecodeError\<close>,
  the exception line 186 catches, the assessor returns (it does not raise) the fixed
  default with the "malformed JSON" explanation. A request that gets such an answer is
  answered with status 200; the one way to a 500 from there is a review of the registry
  whose rating is not text, which fails at line 205 whatever the assessor returned.
\<close>

theorem malformed_json_recovered:
  assumes "i < j" "j < length t" "t ! i = CHR ''{''" "t ! j = CHR ''}''"
    and "json_loads env (fst (locate_json t)) = Inl JSONDecodeError"
  shows "assess (json_loads env) t = Inr default_malformed
     \<and> py_getitem default_malformed ''credibilityScore'' = Inr (JInt 50)
     \<and> py_getitem default_malformed ''classification'' = Inr (JStr ''uncertain'')
     \<and> py_getitem default_malformed ''details'' =
         Inr (JObj [(''sourceReliability'', JInt 50), (''contentAnalysis'', JInt 50),
                    (''factChecking'', JInt 50), (''linguisticAnalysis'', JInt 50)])
     \<and> py_getitem default_malformed ''explanation'' =
         Inr (JStr ''AI content analysis returned malformed JSON.'')
     \<and> (map_of d ''content'' = Some v \<and> truthy v \<and> py_get (JObj d) ''url'' JNull = Inr u
          \<and> generate_content env (AnalysisPrompt v (if truthy u then u else JStr ''Not provided''))
               = Inr r
          \<and> response_text r = Inr t \<longrightarrow>
          (\<exists>b sent. analyze_news_endpoint env (JObj d) = (Json200 b, sent))
          \<or> (\<exists>sent c f q. analyze_news_endpoint env (JObj d) = (Json500 AttributeError, sent)
                \<and> query_fact_check_api env c = (Some f, q) \<and> (\<forall>s. verdict f \<noteq> JStr s)))"
proof -
  have a: "assess (json_loads env) t = Inr default_malformed"
    using assms by (rule assess_malformed)
  have "(\<exists>b sent. analyze_news_endpoint env (JObj d) = (Json200 b, sent))
          \<or> (\<exists>sent c f q. analyze_news_endpoint env (JObj d) = (Json500 AttributeError, sent)
                \<and> query_fact_check_api env c = (Some f, q) \<and> (\<forall>s. verdict f \<noteq> JStr s))"
    if h: "map_of d ''content'' = Some v" "truthy v" "py_get (JObj d) ''url'' JNull = Inr u"
      "generate_content env (AnalysisPrompt v (if truthy u then u else JStr ''Not provided''))
         = Inr r"
      "response_text r = Inr t"
  proof -
    obtain m where m: "default_malformed = JObj m"
      "map_of m ''credibilityScore'' = Some (JInt 50)"
      "map_of m ''explanation'' = Some (JStr malformed_msg)"
      using default_malformed_typed by blast
    obtain out sent where o: "verify_claim env v (JObj m) = (out, sent)"
      by (cases "verify_claim env v (JObj m)")
    from a m(1) have "assess (json_loads env) t = Inr (JObj m)" by simp
    from endpoint_assessed [OF h this o]
    have e: "analyze_news_endpoint env (JObj d) =
       ((case out of Inl e \<Rightarrow> Json500 e | Inr b \<Rightarrow> Json200 b),
        ModelCall (AnalysisPrompt v (if truthy u then u else JStr ''Not provided'')) # sent)" .
    from verify_claim_outcome [OF m(2,3), of env v] o e show ?thesis
      by auto
  qed
  with a show ?thesis
    by (simp add: default_fields malformed_msg_def)
qed

theorem malformed_json_recovered_witness:
  "assess decoder trailing_comma_answer = Inr default_malformed
   \<and> (\<exists>b sent. analyze_news_endpoint malformed_env moon_request = (Json200 b, sent))"
proof -
  have l: "json_loads malformed_env = decoder"
    by (simp add: malformed_env_def stub_env_fields decoder_def)
  have d: "json_loads malformed_env (fst (locate_json trailing_comma_answer))
             = Inl JSONDecodeError"
    by (simp only: l trailing_comma_candidate trailing_comma_rejected)
  obtain r where r: "answer trailing_comma_answer = Inr r"
    "response_text r = Inr trailing_comma_answer"
    using answer_text by blast
  have c: "map_of [(''content'', JStr moon)] ''content'' = Some (JStr moon)"
    "truthy (JStr moon)" "py_get (JObj [(''content'', JStr moon)]) ''url'' JNull = Inr JNull"
    by (simp_all add: moon_def)
  have g: "generate_content malformed_env
             (AnalysisPrompt (JStr moon) (if truthy JNull then JNull else JStr ''Not provided''))
           = Inr r"
    using r(1) by (simp add: malformed_env_def stub_env_fields)
  note run = malformed_json_recovered [OF trailing_comma_braces d,
      of "[(''content'', JStr moon)]" "JStr moon" JNull r]
  from run have a: "assess (json_loads malformed_env) trailing_comma_answer = Inr default_malformed"
    by (rule conjunct1)
  from run c g r(2)
  have "(\<exists>b sent. analyze_news_endpoint malformed_env (JObj [(''content'', JStr moon)])
            = (Json200 b, sent))
      \<or> (\<exists>sent c f q. analyze_news_endpoint malformed_env (JObj [(''content'', JStr moon)])
            = (Json500 AttributeError, sent)
          \<and> query_fact_check_api malformed_env c = (Some f, q) \<and> (\<forall>s. verdict f \<noteq> JStr s))"
    by blast
  moreover have "query_fact_check_api malformed_env c \<noteq> (Some f, q)" for c f q
    using malformed_env_no_rating [of c] by auto
  ultimately have "\<exists>b sent. analyze_news_endpoint malformed_env (JObj [(''content'', JStr moon)])
            = (Json200 b, sent)"
    by blast
  with a l show ?thesis
    by (simp add: moon_request_def)
qed

lemma overlong_braces:
  "length overlong_answer = 4322"
  "overlong_answer ! 0 = CHR ''{''"
  "overlong_answer ! 4321 = CHR ''}''"
  by (simp_all add: overlong_answer_def nth_append)

lemma overlong_candidate: "locate_json overlong_answer = (overlong_answer, JObj [])"
proof -
  have "\<forall>k. 4321 < k \<and> k < length overlong_answer \<longrightarrow> overlong_answer ! k \<noteq> CHR ''}''"
    unfolding overlong_braces(1) by arith
  then have "locate_json overlong_answer =
          (take (Suc 4321 - 0) (drop 0 overlong_answer), JObj [])"
    by (intro locate_json_span) (simp_all add: overlong_braces)
  then show ?thesis
    by (simp add: overlong_braces)
qed

lemma overlong_assessed: "assess (json_loads overlong_env) overlong_answer = Inl digits_limit"
proof -
  have "json_loads overlong_env overlong_answer = Inl digits_limit"
    by (simp add: overlong_env_def)
  moreover have "overlong_answer \<noteq> []"
    using overlong_braces(1) by auto
  ultimately show ?thesis
    by (simp add: assess_def overlong_candidate parse_result_def digits_limit_def)
qed

text \<open>
  The decoder can fail in another way. The answer is a JSON object whose score has 4301
  digits: the text between the braces does not decode, the \<^verbatim>\<open>ValueError\<close> is not a
  \<^verbatim>\<open>JSONDecodeError\<close>, line 186 lets it pass, and the request is answered with status
  500 after the one call of the model.
\<close>

theorem decode_failure_counterexample:
  "fst (locate_json overlong_answer) = overlong_answer
   \<and> json_loads overlong_env overlong_answer = Inl digits_limit
   \<and> analyze_news_endpoint overlong_env moon_request =
       (Json500 digits_limit, [ModelCall (AnalysisPrompt (JStr moon) (JStr ''Not provided''))])
   \<and> status (fst (analyze_news_endpoint overlong_env moon_request)) = 500"
proof -
  obtain r where r: "answer overlong_answer = Inr r" "response_text r = Inr overlong_answer"
    using answer_text by blast
  have g: "generate_content overlong_env
             (AnalysisPrompt (JStr moon) (if truthy JNull then JNull else JStr ''Not provided''))
           = Inr r"
    using r(1) by (simp add: overlong_env_def stub_env_fields)
  have l: "json_loads overlong_env overlong_answer = Inl digits_limit"
    by (simp add: overlong_env_def)
  have c: "map_of [(''content'', JStr moon)] ''content'' = Some (JStr moon)"
    "truthy (JStr moon)" "py_get (JObj [(''content'', JStr moon)]) ''url'' JNull = Inr JNull"
    by (simp_all add: moon_def)
  from endpoint_assess_raises [OF c g r(2) overlong_assessed]
  have "analyze_news_endpoint overlong_env moon_request =
       (Json500 digits_limit, [ModelCall (AnalysisPrompt (JStr moon) (JStr ''Not provided''))])"
    by (simp add: moon_request_def)
  with l show ?thesis
    by (simp add: overlong_candidate)
qed

section \<open>An answer that is well formed\<close>

lemma fenced_first_brace: "\<forall>k<14. fenced_answer ! k \<noteq> CHR ''{''"
proof -
  have "str_find fenced_answer CHR ''{'' = 14"
    by (simp add: fenced_answer_def scored_text_def)
  moreover from this obtain i where "str_find fenced_answer CHR ''{'' = int i"
    "\<forall>k<i. fenced_answer ! k \<noteq> CHR ''{''"
    using str_find_hit [of fenced_answer "CHR ''{''"] by auto
  ultimately show ?thesis by simp
qed

lemma fenced_last_brace:
  "\<forall>k. 92 < k \<and> k < length fenced_answer \<longrightarrow> fenced_answer ! k \<noteq> CHR ''}''"
proof -
  have "str_rfind fenced_answer CHR ''}'' = 92"
    by (simp add: fenced_answer_def scored_text_def)
  moreover from this obtain j where "str_rfind fenced_answer CHR ''}'' = int j"
    "\<forall>k. j < k \<and> k < length fenced_answer \<longrightarrow> fenced_answer ! k \<noteq> CHR ''}''"
    using str_rfind_hit [of fenced_answer "CHR ''}''"] by auto
  ultimately show ?thesis by simp
qed

lemma fenced_span: "take (Suc 92 - 14) (drop 14 fenced_answer) = scored_text"
  by (simp add: fenced_answer_def scored_text_def)

lemma scored_complete: "\<forall>k\<in>set required_keys. map_of scored k \<noteq> None"
  by (simp add: required_keys_def scored_def)

text \<open>
  C7. When the first \<^verbatim>\<open>{\<close> of the answer is at index \<open>i\<close> and the last \<^verbatim>\<open>}\<close> at
  index \<open>j\<close>, with \<open>i < j\<close>, the candidate is the text from \<open>i\<close> to \<open>j\<close> inclusive,
  whatever stands around it. When it decodes to an object with the four required keys,
  the assessor returns this object as decoded: no value of it is clamped or changed.
\<close>

theorem brace_span_parsed_as_is:
  assumes "i < j" "j < length t"
    and "t ! i = CHR ''{''" "\<forall>k<i. t ! k \<noteq> CHR ''{''"
    and "t ! j = CHR ''}''" "\<forall>k. j < k \<and> k < length t \<longrightarrow> t ! k \<noteq> CHR ''}''"
  shows "fst (locate_json t) = take (Suc j - i) (drop i t)
     \<and> (loads (take (Suc j - i) (drop i t)) = Inr (JObj obj)
          \<and> (\<forall>k\<in>set required_keys. map_of obj k \<noteq> None)
          \<longrightarrow> assess loads t = Inr (JObj obj))"
proof -
  have l: "locate_json t = (take (Suc j - i) (drop i t), JObj [])"
    using assms by (rule locate_json_span)
  have "assess loads t = Inr (JObj obj)"
    if "loads (take (Suc j - i) (drop i t)) = Inr (JObj obj)"
      "\<forall>k\<in>set required_keys. map_of obj k \<noteq> None"
  proof -
    from that(1) l have "loads (fst (locate_json t)) = Inr (JObj obj)" by simp
    from assess_object [where loads = loads and obj = obj, OF assms(1,2,3,5) this] that(2)
    show ?thesis by simp
  qed
  with l show ?thesis by simp
qed

theorem brace_span_parsed_as_is_witness:
  "fst (locate_json fenced_answer) = scored_text
   \<and> assess decoder fenced_answer = Inr (JObj scored)"
proof -
  have b: "(14::nat) < 92" "92 < length fenced_answer"
    "fenced_answer ! 14 = CHR ''{''" "fenced_answer ! 92 = CHR ''}''"
    by (simp_all add: braces_in_examples)
  note run = brace_span_parsed_as_is [where loads = decoder and obj = scored,
      OF b(1,2,3) fenced_first_brace b(4) fenced_last_brace]
  from run have "fst (locate_json fenced_answer) = take (Suc 92 - 14) (drop 14 fenced_answer)"
    by (rule conjunct1)
  moreover from run have "decoder (take (Suc 92 - 14) (drop 14 fenced_answer)) = Inr (JObj scored)
      \<and> (\<forall>k\<in>set required_keys. map_of scored k \<noteq> None)
      \<longrightarrow> assess decoder fenced_answer = Inr (JObj scored)"
    by (rule conjunct2)
  ultimately show ?thesis
    using scored_complete by (simp only: fenced_span decoder_examples simp_thms)
qed

section \<open>What the registry can do to a request\<close>

text \<open>
  A call that fails and an answer whose shape makes lines 73--85 raise are both turned
  into "no result" inside \<^verbatim>\<open>query_fact_check_api\<close>.
\<close>

lemma call_failure_is_no_result:
  "requests_get_json env claim = Inl e \<Longrightarrow> fst (query_fact_check_api env claim) = None"
  by (simp add: query_fact_check_api_def)

lemma odd_shape_is_no_result:
  "requests_get_json env claim = Inr data \<Longrightarrow> first_review data = Inl e \<Longrightarrow>
   fst (query_fact_check_api env claim) = None"
  by (simp add: query_fact_check_api_def)

lemma strip_examples:
  "strip moon = moon" "moon \<noteq> sentinel" "moon \<noteq> []"
  "strip ''No specific claim identified '' = sentinel"
  "strip padded_sentinel = sentinel"
  by (simp_all add: strip_def is_space_def moon_def sentinel_def padded_sentinel_def)

lemma unrated_first_review:
  "first_review unrated_review =
     Inr (Some \<lparr>verdict = JNull, url = JStr ''https://checker.example/moon'',
                 publisher = JStr ''Checker''\<rparr>)"
  by (simp add: first_review_def unrated_review_def bind_exn_def)

lemma unrated_query:
  "query_fact_check_api unrated_env moon =
     (Some \<lparr>verdict = JNull, url = JStr ''https://checker.example/moon'',
              publisher = JStr ''Checker''\<rparr>, [RegistryCall moon])"
  by (simp add: query_fact_check_api_def unrated_env_def stub_env_fields unrated_first_review)

lemma unrated_extract: "extract_claim_with_gemini unrated_env (JStr moon) = Some moon"
  by (simp add: extract_claim_with_gemini_def unrated_env_def stub_env_fields answer_def
      strip_examples)

lemma unrated_verify:
  "verify_claim unrated_env (JStr moon) (JObj scored) =
     (Inl AttributeError, [ModelCall (ClaimPrompt (JStr moon)), RegistryCall moon])"
  by (simp add: verify_claim_def unrated_extract unrated_query strip_examples
      merge_verdict_def bind_exn_def)

lemma scored_assessed: "assess decoder scored_text = Inr (JObj scored)"
proof -
  have "locate_json scored_text = (scored_text, JObj [])"
    by (simp add: locate_json_def slice_def scored_text_def)
  moreover have "scored_text \<noteq> []"
    by (simp add: scored_text_def)
  ultimately show ?thesis
    using parse_result_object [of scored_text decoder scored "JObj []"] scored_complete
    by (simp add: assess_def decoder_examples)
qed

text \<open>
  C8 does not hold of the code. The registry answers the query with one claim whose
  first review has a URL and a publisher and no \<^verbatim>\<open>textualRating\<close>. Nothing raises
  inside \<^verbatim>\<open>query_fact_check_api\<close>: line 77 reads the rating with \<^verbatim>\<open>.get\<close> and no
  default, so the function returns a result whose verdict is \<^verbatim>\<open>None\<close>. Line 205 calls
  \<^verbatim>\<open>.lower()\<close> on it, the \<^verbatim>\<open>AttributeError\<close> reaches the handler's \<^verbatim>\<open>except\<close>, and
  the request is answered with status 500.
\<close>

theorem unrated_review_is_a_500:
  "first_review unrated_review =
     Inr (Some \<lparr>verdict = JNull, url = JStr ''https://checker.example/moon'',
                 publisher = JStr ''Checker''\<rparr>)
   \<and> analyze_news_endpoint unrated_env moon_request =
       (Json500 AttributeError,
        [ModelCall (AnalysisPrompt (JStr moon) (JStr ''Not provided'')),
         ModelCall (ClaimPrompt (JStr moon)), RegistryCall moon])
   \<and> status (fst (analyze_news_endpoint unrated_env moon_request)) = 500"
proof -
  obtain r where r: "answer scored_text = Inr r" "response_text r = Inr scored_text"
    using answer_text by blast
  have c: "map_of [(''content'', JStr moon)] ''content'' = Some (JStr moon)"
    "truthy (JStr moon)" "py_get (JObj [(''content'', JStr moon)]) ''url'' JNull = Inr JNull"
    by (simp_all add: strip_examples)
  have g: "generate_content unrated_env
             (AnalysisPrompt (JStr moon) (if truthy JNull then JNull else JStr ''Not provided''))
           = Inr r"
    using r(1) by (simp add: unrated_env_def stub_env_fields)
  have a: "assess (json_loads unrated_env) scored_text = Inr (JObj scored)"
    by (simp add: unrated_env_def stub_env_fields scored_assessed decoder_def [symmetric])
  from endpoint_assessed [OF c g r(2) a unrated_verify]
  have "analyze_news_endpoint unrated_env moon_request =
       (Json500 AttributeError,
        [ModelCall (AnalysisPrompt (JStr moon) (JStr ''Not provided'')),
         ModelCall (ClaimPrompt (JStr moon)), RegistryCall moon])"
    by (simp add: moon_request_def)
  with unrated_first_review show ?thesis by simp
qed

section \<open>When the model finds no claim\<close>

lemma extract_sentinel:
  assumes "generate_content env (ClaimPrompt v) = Inr r'"
    and "candidates r' = (p # ps) # cs"
    and "strip p = sentinel"
  shows "extract_claim_with_gemini env v = None"
  using assms by (simp add: extract_claim_with_gemini_def)

lemma sentinel_run_facts:
  "map_of [(''content'', JStr moon)] ''content'' = Some (JStr moon)"
  "truthy (JStr moon)"
  "py_get (JObj [(''content'', JStr moon)]) ''url'' JNull = Inr JNull"
  by (simp_all add: strip_examples)

lemma fenced_assessed: "assess decoder fenced_answer = Inr (JObj scored)"
proof -
  have b: "(14::nat) < 92" "92 < length fenced_answer"
    "fenced_answer ! 14 = CHR ''{''" "fenced_answer ! 92 = CHR ''}''"
    by (simp_all add: braces_in_examples)
  have "decoder (fst (locate_json fenced_answer)) = Inr (JObj scored)"
    by (simp only: candidate_examples decoder_examples)
  from assess_object [where loads = decoder and obj = scored, OF b this] scored_complete
  show ?thesis by simp
qed

lemma tagged_assessed: "assess decoder tagged_text = Inr (JObj tagged)"
proof -
  have "locate_json tagged_text = (tagged_text, JObj [])"
    by (simp add: locate_json_def slice_def tagged_text_def)
  moreover have "tagged_text \<noteq> []"
    by (simp add: tagged_text_def)
  moreover have "decoder tagged_text = Inr (JObj tagged)"
    by (simp add: decoder_def decoder_table_def loads_of_def unclassified_text_def
        scored_text_def tagged_text_def)
  moreover have "\<forall>k\<in>set required_keys. map_of tagged k \<noteq> None"
    by (simp add: required_keys_def tagged_def)
  ultimately show ?thesis
    using parse_result_object [of tagged_text decoder tagged "JObj []"]
    by (simp add: assess_def)
qed

lemma tagged_extract: "extract_claim_with_gemini tagged_env (JStr moon) = None"
proof -
  obtain r' where r': "answer ''No specific claim identified '' = Inr r'"
    "candidates r' = [''No specific claim identified ''] # []"
    using answer_text by blast
  have "generate_content tagged_env (ClaimPrompt (JStr moon)) = Inr r'"
    using r'(1) by (simp add: tagged_env_def stub_env_fields)
  from extract_sentinel [OF this r'(2) strip_examples(4)] show ?thesis .
qed

text \<open>
  C9, as the code has it. When the first part of the model's answer to the claim prompt
  is, once stripped, the phrase \<^verbatim>\<open>No specific claim identified\<close>, the extraction
  returns \<^verbatim>\<open>None\<close>, the registry is not queried, and the request is answered with
  status 200 and exactly the object the assessor returned: every field of it is kept
  and none is added. So the answer has a field \<^verbatim>\<open>factCheckVerdict\<close>, \<^verbatim>\<open>factCheckUrl\<close>
  or \<^verbatim>\<open>factCheckPublisher\<close> only when the assessor's object had a key of that name.
\<close>

theorem sentinel_returns_assessment:
  assumes "map_of d ''content'' = Some v" "truthy v"
    and "py_get (JObj d) ''url'' JNull = Inr u"
    and "generate_content env (AnalysisPrompt v (if truthy u then u else JStr ''Not provided''))
           = Inr r"
    and "response_text r = Inr t"
    and "assess (json_loads env) t = Inr (JObj a)"
    and "generate_content env (ClaimPrompt v) = Inr r'"
    and "candidates r' = (p # ps) # cs"
    and "strip p = sentinel"
  shows "extract_claim_with_gemini env v = None
     \<and> analyze_news_endpoint env (JObj d) =
         (Json200 (JObj a),
          [ModelCall (AnalysisPrompt v (if truthy u then u else JStr ''Not provided'')),
           ModelCall (ClaimPrompt v)])
     \<and> (\<forall>c. RegistryCall c \<notin> set (snd (analyze_news_endpoint env (JObj d))))"
proof -
  have x: "extract_claim_with_gemini env v = None"
    using assms(7-9) by (rule extract_sentinel)
  then have "verify_claim env v (JObj a) = (Inr (JObj a), [ModelCall (ClaimPrompt v)])"
    by (simp add: verify_claim_def final_result_def)
  from endpoint_assessed [OF assms(1-6) this] x show ?thesis
    by simp
qed

theorem sentinel_returns_assessment_witness:
  "extract_claim_with_gemini fenced_env (JStr moon) = None
   \<and> analyze_news_endpoint fenced_env moon_request =
       (Json200 (JObj scored),
        [ModelCall (AnalysisPrompt (JStr moon) (JStr ''Not provided'')),
         ModelCall (ClaimPrompt (JStr moon))])
   \<and> map_of scored ''factCheckVerdict'' = None"
proof -
  obtain r where r: "answer fenced_answer = Inr r" "response_text r = Inr fenced_answer"
    using answer_text by blast
  obtain r' where r': "answer padded_sentinel = Inr r'"
    "candidates r' = [padded_sentinel] # []"
    using answer_text by blast
  have g: "generate_content fenced_env
             (AnalysisPrompt (JStr moon) (if truthy JNull then JNull else JStr ''Not provided''))
           = Inr r"
    using r(1) by (simp add: fenced_env_def stub_env_fields)
  have g': "generate_content fenced_env (ClaimPrompt (JStr moon)) = Inr r'"
    using r'(1) by (simp add: fenced_env_def stub_env_fields)
  have a: "assess (json_loads fenced_env) fenced_answer = Inr (JObj scored)"
    by (simp add: fenced_env_def stub_env_fields fenced_assessed decoder_def [symmetric])
  from sentinel_returns_assessment [OF sentinel_run_facts g r(2) a g' r'(2) strip_examples(5)]
  show ?thesis
    by (simp add: moon_request_def scored_def)
qed

text \<open>
  The model answers the analysis with an object that has the four required keys and a
  key \<^verbatim>\<open>factCheckVerdict\<close>, and the claim prompt with the phrase. The registry is not
  queried, and the answer of status 200 has the field \<^verbatim>\<open>factCheckVerdict\<close>.
\<close>

theorem fact_check_field_counterexample:
  "extract_claim_with_gemini tagged_env (JStr moon) = None
   \<and> analyze_news_endpoint tagged_env moon_request =
       (Json200 (JObj tagged),
        [ModelCall (AnalysisPrompt (JStr moon) (JStr ''Not provided'')),
         ModelCall (ClaimPrompt (JStr moon))])
   \<and> map_of tagged ''factCheckVerdict'' = Some (JStr ''False'')"
proof -
  obtain r where r: "answer tagged_text = Inr r" "response_text r = Inr tagged_text"
    using answer_text by blast
  have g: "generate_content tagged_env
             (AnalysisPrompt (JStr moon) (if truthy JNull then JNull else JStr ''Not provided''))
           = Inr r"
    using r(1) by (simp add: tagged_env_def stub_env_fields)
  have a: "assess (json_loads tagged_env) tagged_text = Inr (JObj tagged)"
    by (simp add: tagged_env_def stub_env_fields tagged_assessed decoder_def [symmetric])
  have "verify_claim tagged_env (JStr moon) (JObj tagged) =
          (Inr (JObj tagged), [ModelCall (ClaimPrompt (JStr moon))])"
    by (simp add: verify_claim_def tagged_extract final_result_def)
  from endpoint_assessed [OF sentinel_run_facts g r(2) a this] tagged_extract show ?thesis
    by (simp add: moon_request_def tagged_def)
qed

end
